theory Spec2Isabelle
  imports Main
begin

section \<open>Python text and numbers\<close>

text \<open>
  A Python \<open>str\<close> is a sequence of Unicode code points, so text is modelled as a list
  of code points: slicing (\<open>s[:200]\<close>) and the character classes of \<open>re\<close> and
  \<open>str\<close> work on code points, not on bytes. \<open>asc\<close> embeds an ASCII literal. The
  literals of \<open>yad2_monitor.py\<close> outside ASCII are given by their code points, exactly
  as the source file holds them.
\<close>

type_synonym pystr = "nat list"

definition asc :: "string \<Rightarrow> pystr" where
  "asc s = map of_char s"

text \<open>
  The character classes. \<open>\d\<close> in a \<open>str\<close> pattern and \<open>int()\<close> accept the
  decimal digits of Unicode (category Nd): they come in blocks of ten consecutive code
  points, digit zero first; \<open>nd_zeros\<close> lists the first code point of each block
  (Unicode 14, the table of CPython 3.11). \<open>str.isdigit\<close> accepts these and the
  other characters with a digit value (superscripts, circled digits, ...).
  \<open>str.isspace\<close>, \<open>str.strip\<close> and \<open>\s\<close> share one table of blanks.
\<close>

definition nd_zeros :: "nat list" where
  "nd_zeros =
    [0x30, 0x660, 0x6F0, 0x7C0, 0x966, 0x9E6, 0xA66, 0xAE6, 0xB66, 0xBE6, 0xC66, 0xCE6,
     0xD66, 0xDE6, 0xE50, 0xED0, 0xF20, 0x1040, 0x1090, 0x17E0, 0x1810, 0x1946, 0x19D0,
     0x1A80, 0x1A90, 0x1B50, 0x1BB0, 0x1C40, 0x1C50, 0xA620, 0xA8D0, 0xA900, 0xA9D0,
     0xA9F0, 0xAA50, 0xABF0, 0xFF10, 0x104A0, 0x10D30, 0x11066, 0x110F0, 0x11136,
     0x111D0, 0x112F0, 0x11450, 0x114D0, 0x11650, 0x116C0, 0x11730, 0x118E0, 0x11950,
     0x11C50, 0x11D50, 0x11DA0, 0x16A60, 0x16AC0, 0x16B50, 0x1D7CE, 0x1D7D8, 0x1D7E2,
     0x1D7EC, 0x1D7F6, 0x1E140, 0x1E2F0, 0x1E950, 0x1FBF0]"

definition nd_value :: "nat \<Rightarrow> nat option" where
  "nd_value c = map_option (\<lambda>z. c - z) (find (\<lambda>z. z \<le> c \<and> c < z + 10) nd_zeros)"

definition is_nd :: "nat \<Rightarrow> bool" where
  "is_nd c = (nd_value c \<noteq> None)"

definition other_digit_ranges :: "(nat \<times> nat) list" where
  "other_digit_ranges =
    [(0xB2, 0xB3), (0xB9, 0xB9), (0x1369, 0x1371), (0x19DA, 0x19DA), (0x2070, 0x2070),
     (0x2074, 0x2079), (0x2080, 0x2089), (0x2460, 0x2468), (0x2474, 0x247C),
     (0x2488, 0x2490), (0x24EA, 0x24EA), (0x24F5, 0x24FD), (0x24FF, 0x24FF),
     (0x2776, 0x277E), (0x2780, 0x2788), (0x278A, 0x2792), (0x10A40, 0x10A43),
     (0x10E60, 0x10E68), (0x11052, 0x1105A), (0x1F100, 0x1F10A)]"

definition py_isdigit :: "nat \<Rightarrow> bool" where
  "py_isdigit c = (is_nd c \<or> list_ex (\<lambda>(a, b). a \<le> c \<and> c \<le> b) other_digit_ranges)"

definition space_ranges :: "(nat \<times> nat) list" where
  "space_ranges =
    [(0x9, 0xD), (0x1C, 0x20), (0x85, 0x85), (0xA0, 0xA0), (0x1680, 0x1680),
     (0x2000, 0x200A), (0x2028, 0x2029), (0x202F, 0x202F), (0x205F, 0x205F),
     (0x3000, 0x3000)]"

definition py_isspace :: "nat \<Rightarrow> bool" where
  "py_isspace c = list_ex (\<lambda>(a, b). a \<le> c \<and> c \<le> b) space_ranges"

text \<open>\<open>text.strip()\<close>: the blanks at both ends are removed.\<close>

definition py_strip :: "pystr \<Rightarrow> pystr" where
  "py_strip s = rev (dropWhile py_isspace (rev (dropWhile py_isspace s)))"

text \<open>
  \<open>str(n)\<close> and \<open>f"{n}"\<close> of an integer: decimal digits, most significant first, a
  minus sign for a negative number. \<open>f"{n:+d}"\<close> always writes the sign.
\<close>

function str_nat :: "nat \<Rightarrow> pystr" where
  "str_nat n = (if n < 10 then [48 + n] else str_nat (n div 10) @ [48 + n mod 10])"
  by pat_completeness auto
termination
  by (relation "measure id") auto

declare str_nat.simps [simp del]

definition str_int :: "int \<Rightarrow> pystr" where
  "str_int i = (if i < 0 then 45 # str_nat (nat (- i)) else str_nat (nat i))"

definition fmt_plus_d :: "int \<Rightarrow> pystr" where
  "fmt_plus_d i = (if i < 0 then 45 # str_nat (nat (- i)) else 43 # str_nat (nat i))"

text \<open>
  \<open>re.findall(r'\d+', text)\<close>: the maximal runs of decimal digits, left to right.
  \<open>cur\<close> is the run being read.
\<close>

fun findall_from :: "pystr \<Rightarrow> pystr \<Rightarrow> pystr list" where
  "findall_from cur [] = (if cur = [] then [] else [cur])"
| "findall_from cur (c # cs) =
     (if is_nd c then findall_from (cur @ [c]) cs
      else if cur = [] then findall_from [] cs
      else cur # findall_from [] cs)"

definition re_findall_digits :: "pystr \<Rightarrow> pystr list" where
  "re_findall_digits s = findall_from [] s"

text \<open>
  \<open>int(s)\<close> for a string of decimal digits; \<open>Inl\<close> carries the text of the
  \<open>ValueError\<close> that it raises: for a string of more than 4300 digits (the limit
  \<open>sys.get_int_max_str_digits()\<close> of the interpreter, CPython 3.11, at its default),
  and for a string that is empty or holds another character. (Signs, blanks and
  underscores, which \<open>int\<close> also reads, never reach it here: its argument is a match
  of \<open>\d+\<close> or \<open>\d{1,6}\<close>.)
\<close>

fun int_from :: "nat \<Rightarrow> pystr \<Rightarrow> nat option" where
  "int_from a [] = Some a"
| "int_from a (c # cs) =
     (case nd_value c of None \<Rightarrow> None | Some d \<Rightarrow> int_from (10 * a + d) cs)"

definition int_max_str_digits :: nat where
  "int_max_str_digits = 4300"

definition int_value_error :: "pystr \<Rightarrow> pystr" where
  "int_value_error n = asc ''invalid literal for int() with base 10: '' @ [39] @ n @ [39]"

definition int_limit_error :: "nat \<Rightarrow> pystr" where
  "int_limit_error n =
     asc ''Exceeds the limit ('' @ str_nat int_max_str_digits @
     asc '' digits) for integer string conversion: value has '' @ str_nat n @
     asc '' digits; use sys.set_int_max_str_digits() to increase the limit''"

definition py_int :: "pystr \<Rightarrow> pystr + int" where
  "py_int s =
     (if s = [] then Inl (int_value_error s)
      else if int_max_str_digits < length s then Inl (int_limit_error (length s))
      else (case int_from 0 s of None \<Rightarrow> Inl (int_value_error s) | Some n \<Rightarrow> Inr (int n)))"


section \<open>Date and time\<close>

text \<open>
  A reading of \<open>datetime.now()\<close>, with the two renderings the monitor uses:
  \<open>isoformat()\<close> and \<open>strftime\<close> with the directives
  \<open>%Y %m %d %H %M %S\<close>. (\<open>%Y\<close> is the plain decimal year, which is four
  digits for every year from 1000 on.)
\<close>

record datetime =
  year :: nat
  month :: nat
  day :: nat
  hour :: nat
  minute :: nat
  second :: nat
  microsecond :: nat

definition zpad :: "nat \<Rightarrow> nat \<Rightarrow> pystr" where
  "zpad w n = replicate (w - length (str_nat n)) 48 @ str_nat n"

definition isoformat :: "datetime \<Rightarrow> pystr" where
  "isoformat t =
     zpad 4 (year t) @ asc ''-'' @ zpad 2 (month t) @ asc ''-'' @ zpad 2 (day t) @ asc ''T'' @
     zpad 2 (hour t) @ asc '':'' @ zpad 2 (minute t) @ asc '':'' @ zpad 2 (second t) @
     (if microsecond t = 0 then [] else asc ''.'' @ zpad 6 (microsecond t))"

definition directive :: "nat \<Rightarrow> datetime \<Rightarrow> pystr" where
  "directive d t =
     (if d = of_char CHR ''Y'' then str_nat (year t)
      else if d = of_char CHR ''m'' then zpad 2 (month t)
      else if d = of_char CHR ''d'' then zpad 2 (day t)
      else if d = of_char CHR ''H'' then zpad 2 (hour t)
      else if d = of_char CHR ''M'' then zpad 2 (minute t)
      else if d = of_char CHR ''S'' then zpad 2 (second t)
      else [37, d])"

fun strftime :: "pystr \<Rightarrow> datetime \<Rightarrow> pystr" where
  "strftime (p # d # fs) t =
     (if p = 37 then directive d t @ strftime fs t else p # strftime (d # fs) t)"
| "strftime fs t = fs"

section \<open>Data model\<close>

text \<open>
  The monitoring data \<open>self.data\<close> is the dictionary of \<open>load_data\<close> (lines 40-45);
  a history entry is the dictionary appended at lines 329-332 (no \<open>change\<close> key) or
  at lines 365-369 (with it). Totals are Python integers, hence unbounded.
\<close>

record history_entry =
  timestamp :: pystr
  total :: int
  change :: "int option"

record monitor_data =
  last_total :: int
  last_check :: "pystr option"
  history :: "history_entry list"
  seen_car_ids :: "pystr list"

record config =
  url :: pystr
  telegram_bot_token :: pystr
  telegram_chat_id :: pystr
  storage_file :: pystr

text \<open>
  The storage file: missing, present but not loadable (\<open>open\<close> or \<open>json.load\<close> raises
  an exception with the given text), or holding the JSON document of a monitoring
  data dictionary. Two equal dictionaries are written as the same bytes by
  \<open>json.dump\<close>, so the document stands for the file's content.
\<close>

datatype stored = Absent | Unreadable pystr | Json monitor_data

text \<open>One entry of \<open>car_info\<close>: every key may be missing.\<close>

record listing =
  title :: "pystr option"
  price :: "pystr option"
  link :: "pystr option"
  details :: "pystr option"

section \<open>The outside world\<close>

text \<open>
  A request to the chat API (lines 254-262), and what comes back: a response with its
  status code (and the text of the \<open>HTTPError\<close> that \<open>raise_for_status\<close> raises for
  it when the code is 4xx or 5xx), or an exception of \<open>requests.post\<close> itself.
\<close>

record telegram_request =
  post_url :: pystr
  chat_id :: pystr
  message_text :: pystr
  parse_mode :: pystr
  disable_web_page_preview :: bool
  post_timeout :: nat

datatype http_outcome = Responded nat pystr | Failed pystr

text \<open>
  Writing the storage file (lines 51-52): it succeeds, or \<open>open\<close> raises and the file
  stays as it was, or \<open>json.dump\<close> raises after \<open>open\<close> has truncated the file (the
  second text is what loading the partial file raises later).
\<close>

datatype write_outcome = Written | OpenFails pystr | DumpFails pystr pystr

text \<open>
  What the browser session shows for the listing page: whether \<open>driver.get\<close> raises;
  for a locator, the text of the element that \<open>wait.until(presence_of_element_located)\<close>
  delivers (\<open>None\<close> when the wait times out or reading the text raises); the texts of
  the elements that \<open>find_elements\<close> delivers (\<open>Inl\<close>: the call, or reading one text,
  raises); the page source; and the listing containers that \<open>find_elements\<close>
  delivers for a CSS selector (\<open>Inl\<close>: the call raises).

  Of a listing container: the text of the first descendant that matches a CSS selector
  (\<open>None\<close> when \<open>find_element\<close> or reading the text raises), the \<open>href\<close> of
  its first anchor (\<open>None\<close> when there is no anchor, the call raises or the
  attribute is missing), and its own rendered text (\<open>Inl\<close>: reading it raises).
\<close>

datatype locator = XPATH | CSS_SELECTOR

record element =
  child_text :: "pystr \<Rightarrow> pystr option"
  anchor_href :: "pystr option"
  element_text :: "pystr + pystr"

record page =
  get_error :: "pystr option"
  wait_text :: "locator \<Rightarrow> pystr \<Rightarrow> pystr option"
  find_texts :: "locator \<Rightarrow> pystr \<Rightarrow> pystr + (pystr + pystr) list"
  page_source :: "pystr + pystr"
  containers :: "pystr \<Rightarrow> pystr + element list"

text \<open>
  The environment of one process: the successive readings of the clock, the outcome of
  each request and of each write, whether starting the browser raises, and the page.
\<close>

record env =
  clock :: "nat \<Rightarrow> datetime"
  http :: "nat \<Rightarrow> http_outcome"
  disk :: "nat \<Rightarrow> write_outcome"
  driver_error :: "pystr option"
  page :: page

text \<open>
  The state that a run changes: the monitor object (\<open>self.data\<close>, \<open>self.driver\<close>),
  the storage file, the requests issued, the console, and how many clock readings and
  writes have happened.
\<close>

record system =
  data :: monitor_data
  driver :: bool
  storage :: stored
  posted :: "telegram_request list"
  stdout :: "pystr list"
  ticks :: nat
  writes :: nat

definition print_line :: "pystr \<Rightarrow> system \<Rightarrow> system" where
  "print_line l s = s\<lparr>stdout := stdout s @ [l]\<rparr>"

definition print_lines :: "pystr list \<Rightarrow> system \<Rightarrow> system" where
  "print_lines ls s = s\<lparr>stdout := stdout s @ ls\<rparr>"

definition now :: "env \<Rightarrow> system \<Rightarrow> datetime \<times> system" where
  "now ev s = (clock ev (ticks s), s\<lparr>ticks := Suc (ticks s)\<rparr>)"

section \<open>The texts of the notifications\<close>

definition txt_increase_header :: pystr where \<comment> \<open>line 276\<close>
  "txt_increase_header =
     [0x11F, 0x178, 0x161, 0x2014] @ asc '' <b>'' @ [0xD7, 0xA8, 0xD7, 0x203A, 0xD7,
     0x2018, 0xD7, 0x2122, 0xD7] @ asc '' '' @ [0xD7, 0x2014, 0xD7, 0x201C, 0xD7, 0xA9,
     0xD7, 0x2122, 0xD7] @ asc '' '' @ [0xD7, 0x2018, 0xD7, 0x2122, 0xD7, 0x201C] @ asc
     ''2!</b>'' @ [0xA, 0xA]"

definition txt_total_now :: pystr where \<comment> \<open>line 277\<close>
  "txt_total_now =
     [0x11F, 0x178, 0x201C, 0x160] @ asc '' '' @ [0xD7, 0xA1, 0xD7, 0x201D, 0xD7, 0xB4,
     0xD7, 0x203A] @ asc '' '' @ [0xD7, 0xA2, 0xD7, 0x203A, 0xD7, 0xA9, 0xD7, 0x2122,
     0xD7, 0x2022] @ asc '': ''"

definition txt_new_suffix :: pystr where \<comment> \<open>line 277\<close>
  "txt_new_suffix =
     asc '' '' @ [0xD7, 0x2014, 0xD7, 0x201C, 0xD7, 0xA9, 0xD7, 0x2122, 0xD7] @ asc
     '')'' @ [0xA]"

definition txt_decrease_header :: pystr where \<comment> \<open>line 279\<close>
  "txt_decrease_header =
     [0x11F, 0x178, 0x201C, 0x2030] @ asc '' <b>'' @ [0xD7, 0xA9, 0xD7, 0x2122, 0xD7,
     0xA0, 0xD7, 0x2022, 0xD7, 0x2122] @ asc '' '' @ [0xD7, 0x2018, 0xD7, 0xD7, 0xA1,
     0xD7, 0xA4, 0xD7, 0xA8] @ asc '' '' @ [0xD7, 0x201D, 0xD7, 0xA8, 0xD7, 0x203A,
     0xD7, 0x2018, 0xD7, 0x2122, 0xD7] @ asc ''</b>'' @ [0xA, 0xA]"

definition txt_link_open :: pystr where \<comment> \<open>line 282\<close>
  "txt_link_open =
     [0x11F, 0x178, 0x201D, 0x2014] @ asc '' <a href='' @ [0x22]"

definition txt_all_ads_close :: pystr where \<comment> \<open>line 282\<close>
  "txt_all_ads_close =
     [0x22] @ asc ''>'' @ [0xD7, 0x153, 0xD7, 0xA6, 0xD7, 0xA4, 0xD7, 0x2122, 0xD7,
     0x2122, 0xD7, 0x201D] @ asc '' '' @ [0xD7, 0x2018, 0xD7, 0x203A, 0xD7, 0x153] @ asc
     '' '' @ [0xD7, 0x201D, 0xD7, 0xD7, 0x2022, 0xD7, 0x201C, 0xD7, 0xA2, 0xD7, 0x2022,
     0xD7, 0xAA] @ asc ''</a>'' @ [0xA]"

definition txt_price_prefix :: pystr where \<comment> \<open>line 291\<close>
  "txt_price_prefix =
     [0xA] @ asc ''   '' @ [0x11F, 0x178, 0x2019, 0xB0] @ asc '' ''"

definition txt_listing_link_open :: pystr where \<comment> \<open>line 293\<close>
  "txt_listing_link_open =
     [0xA] @ asc ''   '' @ [0x11F, 0x178, 0x201D, 0x2014] @ asc '' <a href='' @ [0x22]"

definition txt_listing_link_close :: pystr where \<comment> \<open>line 293\<close>
  "txt_listing_link_close =
     [0x22] @ asc ''>'' @ [0xD7, 0xA6, 0xD7, 0xA4, 0xD7, 0x201D] @ asc '' '' @ [0xD7,
     0x2018, 0xD7, 0xD7, 0x2022, 0xD7, 0x201C, 0xD7, 0xA2, 0xD7, 0x201D] @ asc ''</a>''"

definition txt_clock_prefix :: pystr where \<comment> \<open>line 296\<close>
  "txt_clock_prefix =
     [0xA, 0xE2, 0xB0] @ asc '' ''"

definition txt_warning_head :: pystr where \<comment> \<open>line 316\<close>
  "txt_warning_head =
     [0xE2, 0x161, 0xA0, 0xEF, 0xB8] @ asc '' <b>'' @ [0xD7, 0x2018, 0xD7, 0xA2, 0xD7,
     0x2122, 0xD7, 0x201D] @ asc '' '' @ [0xD7, 0x2018, 0xD7, 0xA0, 0xD7, 0x2122, 0xD7,
     0x2DC, 0xD7, 0x2022, 0xD7, 0xA8] @ asc '' '' @ [0xD7, 0x2122, 0xD7, 0x201C] @ asc
     ''2</b>'' @ [0xA, 0xA, 0xD7, 0x153, 0xD7] @ asc '' '' @ [0xD7, 0x201D, 0xD7, 0xA6,
     0xD7, 0x153, 0xD7, 0x2014, 0xD7, 0xAA, 0xD7, 0x2122] @ asc '' '' @ [0xD7, 0x153,
     0xD7, 0xA7, 0xD7, 0xA8, 0xD7, 0x2022, 0xD7] @ asc '' '' @ [0xD7, 0xD7, 0xAA] @ asc
     '' '' @ [0xD7, 0xD7, 0xA1, 0xD7, 0xA4, 0xD7, 0xA8] @ asc '' '' @ [0xD7, 0x201D,
     0xD7, 0xD7, 0x2022, 0xD7, 0x201C, 0xD7, 0xA2, 0xD7, 0x2022, 0xD7, 0xAA] @ asc ''.''
     @ [0xA, 0xD7, 0x201D, 0xD7, 0xA0, 0xD7, 0x2122, 0xD7, 0x2DC, 0xD7, 0x2022, 0xD7,
     0xA8] @ asc '' '' @ [0xD7, 0x2122, 0xD7, 0xD7, 0xA9, 0xD7, 0x2122, 0xD7, 0x161] @
     asc '' '' @ [0xD7, 0x2018, 0xD7, 0x2018, 0xD7, 0x201C, 0xD7, 0x2122, 0xD7, 0xA7,
     0xD7, 0x201D] @ asc '' '' @ [0xD7, 0x201D, 0xD7, 0x2018, 0xD7, 0xD7, 0x201D] @ asc
     ''.'' @ [0xA, 0xA, 0x11F, 0x178, 0x201D, 0x2014] @ asc '' <a href='' @ [0x22]"

definition txt_warning_tail :: pystr where \<comment> \<open>line 316\<close>
  "txt_warning_tail =
     [0x22] @ asc ''>'' @ [0xD7, 0x2018, 0xD7, 0x201C, 0xD7, 0x2022, 0xD7, 0xA7] @ asc
     '' '' @ [0xD7, 0x2122, 0xD7, 0x201C, 0xD7, 0xA0, 0xD7, 0x2122, 0xD7, 0xAA] @ asc
     ''</a>''"

definition txt_welcome_head :: pystr where \<comment> \<open>line 336\<close>
  "txt_welcome_head =
     [0xE2, 0x153, 0x2026] @ asc '' <b>'' @ [0xD7, 0xA0, 0xD7, 0x2122, 0xD7, 0x2DC,
     0xD7, 0x2022, 0xD7, 0xA8] @ asc '' '' @ [0xD7, 0x2122, 0xD7, 0x201C] @ asc ''2 '' @
     [0xD7, 0x201D, 0xD7, 0x2022, 0xD7, 0xA4, 0xD7, 0xA2, 0xD7, 0x153] @ asc ''!</b>'' @
     [0xA, 0xA, 0x11F, 0x178, 0x201C, 0x160] @ asc '' '' @ [0xD7, 0xA1, 0xD7, 0x201D,
     0xD7, 0xB4, 0xD7, 0x203A] @ asc '' '' @ [0xD7, 0xA8, 0xD7, 0x203A, 0xD7, 0x2018,
     0xD7, 0x2122, 0xD7] @ asc '' '' @ [0xD7, 0x203A, 0xD7, 0xA8, 0xD7, 0x2019, 0xD7,
     0xA2] @ asc '': ''"

definition txt_welcome_mid :: pystr where \<comment> \<open>line 336\<close>
  "txt_welcome_mid =
     [0xA, 0xE2, 0xB1, 0xEF, 0xB8] @ asc '' '' @ [0xD7, 0x2018, 0xD7, 0x2022, 0xD7,
     0x201C, 0xD7, 0xA7] @ asc '' '' @ [0xD7, 0x203A, 0xD7, 0x153] @ asc '' 20 '' @
     [0xD7, 0x201C, 0xD7, 0xA7, 0xD7, 0x2022, 0xD7, 0xAA] @ asc '' (06:00-00:00)'' @
     [0xA, 0x11F, 0x178, 0x201D, 0x2014] @ asc '' <a href='' @ [0x22]"

definition txt_welcome_tail :: pystr where \<comment> \<open>line 336\<close>
  "txt_welcome_tail =
     [0x22] @ asc ''>'' @ [0xD7, 0xA7, 0xD7, 0x2122, 0xD7, 0xA9, 0xD7, 0x2022, 0xD7,
     0xA8] @ asc '' '' @ [0xD7, 0x153, 0xD7, 0x2014, 0xD7, 0x2122, 0xD7, 0xA4, 0xD7,
     0x2022, 0xD7, 0xA9] @ asc ''</a>'' @ [0xA, 0xA, 0xD7, 0xAA, 0xD7, 0xA7, 0xD7,
     0x2018, 0xD7, 0x153] @ asc '' '' @ [0xD7, 0x201D, 0xD7, 0xAA, 0xD7, 0xA8, 0xD7,
     0xD7, 0x201D] @ asc '' '' @ [0xD7, 0x203A, 0xD7, 0xA9, 0xD7, 0x2122, 0xD7, 0xAA,
     0xD7, 0x2022, 0xD7, 0x2022, 0xD7, 0xA1, 0xD7, 0xA4, 0xD7, 0x2022] @ asc '' '' @
     [0xD7, 0xA8, 0xD7, 0x203A, 0xD7, 0x2018, 0xD7, 0x2122, 0xD7] @ asc '' '' @ [0xD7,
     0x2014, 0xD7, 0x201C, 0xD7, 0xA9, 0xD7, 0x2122, 0xD7] @ asc ''! '' @ [0x11F, 0x178,
     0x161, 0x2014]"

definition txt_status_head :: pystr where \<comment> \<open>line 383\<close>
  "txt_status_head =
     [0x11F, 0x178, 0x201C, 0x160] @ asc '' <b>'' @ [0xD7, 0xA1, 0xD7, 0x2DC, 0xD7,
     0x2DC, 0xD7, 0x2022, 0xD7, 0xA1] @ asc '' '' @ [0xD7, 0xA0, 0xD7, 0x2122, 0xD7,
     0x2DC, 0xD7, 0x2022, 0xD7, 0xA8] @ asc '' '' @ [0xD7, 0x2122, 0xD7, 0x201C] @ asc
     ''2</b>'' @ [0xA, 0xA, 0xE2, 0x153, 0x2026] @ asc '' '' @ [0xD7, 0x201D, 0xD7,
     0xD7, 0xA2, 0xD7, 0xA8, 0xD7, 0x203A, 0xD7, 0xAA] @ asc '' '' @ [0xD7, 0xA4, 0xD7,
     0xA2, 0xD7, 0x2122, 0xD7, 0x153, 0xD7, 0x201D, 0xA, 0x11F, 0x178, 0x201C, 0x2C6] @
     asc '' '' @ [0xD7, 0xA1, 0xD7, 0x201D, 0xD7, 0xB4, 0xD7, 0x203A] @ asc '' '' @
     [0xD7, 0xA8, 0xD7, 0x203A, 0xD7, 0x2018, 0xD7, 0x2122, 0xD7] @ asc '': ''"

definition txt_status_checks :: pystr where \<comment> \<open>line 383\<close>
  "txt_status_checks =
     [0xA, 0x11F, 0x178, 0x201D, 0x201E] @ asc '' '' @ [0xD7, 0x2018, 0xD7, 0x201C,
     0xD7, 0x2122, 0xD7, 0xA7, 0xD7, 0x2022, 0xD7, 0xAA] @ asc '' '' @ [0xD7, 0xA9,
     0xD7, 0x2018, 0xD7, 0x2022, 0xD7, 0xA6, 0xD7, 0xA2, 0xD7, 0x2022] @ asc '': ''"

definition txt_status_last :: pystr where \<comment> \<open>line 383\<close>
  "txt_status_last =
     [0xA, 0xE2, 0xB0] @ asc '' '' @ [0xD7, 0x2018, 0xD7, 0x201C, 0xD7, 0x2122, 0xD7,
     0xA7, 0xD7, 0x201D] @ asc '' '' @ [0xD7, 0xD7, 0x2014, 0xD7, 0xA8, 0xD7, 0x2022,
     0xD7, 0xA0, 0xD7, 0x201D] @ asc '': ''"

definition txt_error_head :: pystr where \<comment> \<open>line 393\<close>
  "txt_error_head =
     [0xE2, 0x152] @ asc '' <b>'' @ [0xD7, 0xA9, 0xD7, 0x2019, 0xD7, 0x2122, 0xD7, 0xD7,
     0x201D] @ asc '' '' @ [0xD7, 0x2018, 0xD7, 0xA0, 0xD7, 0x2122, 0xD7, 0x2DC, 0xD7,
     0x2022, 0xD7, 0xA8] @ asc ''</b>'' @ [0xA, 0xA] @ asc ''Error: ''"

definition txt_error_tail :: pystr where \<comment> \<open>line 393\<close>
  "txt_error_tail =
     [0xA, 0xA, 0xD7, 0x201D, 0xD7, 0xA0, 0xD7, 0x2122, 0xD7, 0x2DC, 0xD7, 0x2022, 0xD7,
     0xA8] @ asc '' '' @ [0xD7, 0x2122, 0xD7, 0xD7, 0xA9, 0xD7, 0x2122, 0xD7, 0x161] @
     asc '' '' @ [0xD7, 0x2018, 0xD7, 0x2018, 0xD7, 0x201C, 0xD7, 0x2122, 0xD7, 0xA7,
     0xD7, 0x201D] @ asc '' '' @ [0xD7, 0x201D, 0xD7, 0x2018, 0xD7, 0xD7, 0x201D] @ asc
     ''.''"

definition txt_new_cars_title :: pystr where \<comment> \<open>line 286\<close>
  "txt_new_cars_title =
     [0xA] @ asc ''<b>'' @ [0xD7, 0xA8, 0xD7, 0x203A, 0xD7, 0x2018, 0xD7, 0x2122, 0xD7]
     @ asc '' '' @ [0xD7, 0x2014, 0xD7, 0x201C, 0xD7, 0xA9, 0xD7, 0x2122, 0xD7] @ asc
     '':</b>'' @ [0xA]"


section \<open>State store\<close>

definition default_data :: monitor_data where \<comment> \<open>lines 40-45\<close>
  "default_data = \<lparr>last_total = 0, last_check = None, history = [], seen_car_ids = []\<rparr>"

definition load_data :: "system \<Rightarrow> monitor_data \<times> system" where \<comment> \<open>lines 31-45\<close>
  "load_data s =
     (case storage s of
        Absent \<Rightarrow> (default_data, s)
      | Unreadable e \<Rightarrow> (default_data, print_line (asc ''Error loading data: '' @ e) s)
      | Json d \<Rightarrow> (d, s))"

definition init :: "system \<Rightarrow> system" where \<comment> \<open>lines 23-29\<close>
  "init s = (let s1 = s\<lparr>driver := False\<rparr>; (d, s2) = load_data s1 in s2\<lparr>data := d\<rparr>)"

definition save_data :: "env \<Rightarrow> system \<Rightarrow> system" where \<comment> \<open>lines 47-54\<close>
  "save_data ev s =
     (let (t, s1) = now ev s;
          d = (data s1)\<lparr>last_check := Some (isoformat t)\<rparr>;
          s2 = s1\<lparr>data := d, writes := Suc (writes s1)\<rparr>
      in case disk ev (writes s1) of
           Written \<Rightarrow> s2\<lparr>storage := Json d\<rparr>
         | OpenFails e \<Rightarrow> print_line (asc ''Error saving data: '' @ e) s2
         | DumpFails e e' \<Rightarrow>
             print_line (asc ''Error saving data: '' @ e) (s2\<lparr>storage := Unreadable e'\<rparr>))"

section \<open>Notifier\<close>

definition send_telegram_message :: "config \<Rightarrow> env \<Rightarrow> pystr \<Rightarrow> system \<Rightarrow> bool \<times> system" where
  \<comment> \<open>lines 251-269\<close>
  "send_telegram_message cfg ev message s =
     (let request = \<lparr>post_url = asc ''https://api.telegram.org/bot'' @ telegram_bot_token cfg
                                 @ asc ''/sendMessage'',
                      chat_id = telegram_chat_id cfg, message_text = message,
                      parse_mode = asc ''HTML'', disable_web_page_preview = False,
                      post_timeout = 10\<rparr>;
          s1 = s\<lparr>posted := posted s @ [request]\<rparr>
      in case http ev (length (posted s)) of
           Failed e \<Rightarrow> (False, print_line (asc ''Error sending Telegram: '' @ e) s1)
         | Responded code e \<Rightarrow>
             if 400 \<le> code \<and> code < 600
             then (False, print_line (asc ''Error sending Telegram: '' @ e) s1)
             else (True, print_line (asc ''Telegram notification sent'') s1))"

section \<open>Counter extractor\<close>

definition total_selectors :: "pystr list" where \<comment> \<open>lines 93-102\<close>
  "total_selectors =
    [asc ''span[data-testid='' @ [0x27] @ asc ''total-items'' @ [0x27] @ asc '']'',
     asc ''span[class*='' @ [0x27] @ asc ''totalItems'' @ [0x27] @ asc '']'',
     asc ''span.results-feed_sortAndTotalBox__lFFyS'',
     asc ''span[class*='' @ [0x27] @ asc ''sortAndTotalBox'' @ [0x27] @ asc '']'',
     asc ''span[class*='' @ [0x27] @ asc ''totalResults'' @ [0x27] @ asc '']'',
     asc ''div[class*='' @ [0x27] @ asc ''totalBox'' @ [0x27] @ asc ''] span'',
     asc ''//span[contains(text(),'' @ [0x27, 0xD7, 0xA0, 0xD7, 0xD7, 0xA6, 0xD7, 0xD7,
     0x2022, 0x27] @ asc '')]'',
     asc ''//span[contains(text(),'' @ [0x27, 0xD7, 0xD7, 0x2022, 0xD7, 0x201C, 0xD7,
     0xA2, 0xD7, 0x2022, 0xD7, 0xAA, 0x27] @ asc '')]'']"

definition xpath_possible :: pystr where \<comment> \<open>line 122\<close>
  "xpath_possible =
     asc ''//span[contains(text(),'' @ [0x27, 0xD7, 0xA0, 0xD7, 0xD7, 0xA6, 0xD7, 0xD7,
     0x2022, 0x27] @ asc '') or contains(text(),'' @ [0x27, 0xD7, 0xD7, 0x2022, 0xD7,
     0x201C, 0xD7, 0xA2, 0xD7, 0x2022, 0xD7, 0xAA, 0x27] @ asc '')]''"

definition xpath_candidates :: pystr where \<comment> \<open>line 143\<close>
  "xpath_candidates =
     asc ''//*[contains(text(),'' @ [0x27, 0xD7, 0xAA, 0xD7, 0x2022, 0xD7, 0xA6, 0xD7,
     0xD7, 0x2022, 0xD7, 0xAA, 0x27] @ asc '') or contains(text(),'' @ [0x27, 0xD7,
     0xD7, 0x2022, 0xD7, 0x201C, 0xD7, 0xA2, 0xD7, 0x2022, 0xD7, 0xAA, 0x27] @ asc
     '') or contains(text(),'' @ [0x27, 0xD7, 0xA0, 0xD7, 0xD7, 0xA6, 0xD7, 0xD7,
     0x2022, 0x27] @ asc '') or contains(text(),'' @ [0x27, 0xD7, 0xAA, 0xD7, 0x2022,
     0xD7, 0xA6, 0xD7, 0xD7, 0x201D, 0x27] @ asc '')]''"

definition counter_keywords :: "pystr list" where \<comment> \<open>line 161\<close>
  "counter_keywords =
    [[0xD7, 0xAA, 0xD7, 0x2022, 0xD7, 0xA6, 0xD7, 0xD7, 0x2022, 0xD7, 0xAA],
     [0xD7, 0xD7, 0x2022, 0xD7, 0x201C, 0xD7, 0xA2, 0xD7, 0x2022, 0xD7, 0xAA],
     [0xD7, 0xA0, 0xD7, 0xD7, 0xA6, 0xD7, 0xD7, 0x2022],
     [0xD7, 0xAA, 0xD7, 0x2022, 0xD7, 0xA6, 0xD7, 0xD7, 0x201D]]"

definition txt_fallback_elements :: pystr where \<comment> \<open>line 141\<close>
  "txt_fallback_elements =
     asc ''Fallback: searching page elements for candidate texts containing '' @ [0x27,
     0xD7, 0xAA, 0xD7, 0x2022, 0xD7, 0xA6, 0xD7, 0xD7, 0x2022, 0xD7, 0xAA, 0x27] @ asc
     '', '' @ [0x27, 0xD7, 0xD7, 0x2022, 0xD7, 0x201C, 0xD7, 0xA2, 0xD7, 0x2022, 0xD7,
     0xAA, 0x27] @ asc '' or '' @ [0x27, 0xD7, 0xA0, 0xD7, 0xD7, 0xA6, 0xD7, 0xD7,
     0x2022, 0x27]"

text \<open>Lines 105-118: the first selector whose element is present gives the text.\<close>

fun try_selectors :: "page \<Rightarrow> pystr list \<Rightarrow> pystr option" where
  "try_selectors pg [] = None"
| "try_selectors pg (selector # selectors) =
     (case wait_text pg (if take 2 selector = asc ''//'' then XPATH else CSS_SELECTOR) selector of
        Some t \<Rightarrow> Some t
      | None \<Rightarrow> try_selectors pg selectors)"

text \<open>
  Lines 123-128: the first element whose text holds a digit (\<open>Inl\<close>: reading a text
  raised before one was found).
\<close>

fun first_with_digit :: "(pystr + pystr) list \<Rightarrow> pystr + pystr option" where
  "first_with_digit [] = Inr None"
| "first_with_digit (Inl e # elems) = Inl e"
| "first_with_digit (Inr t # elems) =
     (if list_ex py_isdigit t then Inr (Some t) else first_with_digit elems)"

text \<open>
  The extractor changes nothing but the console, so each of its parts returns its
  result together with the lines it prints.

  Lines 104-128: the matched text \<open>total_text\<close>, \<open>None\<close> when nothing matched;
  \<open>Inl\<close> is an exception on its way to the handler of line 172.
\<close>

definition find_total_text :: "page \<Rightarrow> (pystr + pystr option) \<times> pystr list" where
  "find_total_text pg =
     (let (total_text, out) =
            (case try_selectors pg total_selectors of
               Some t \<Rightarrow> (Some t, [asc ''Found total text: '' @ t])
             | None \<Rightarrow> (None, []))
      in if total_text \<noteq> None \<and> total_text \<noteq> Some [] then (Inr total_text, out)
         else
           (case find_texts pg XPATH xpath_possible of
              Inl e \<Rightarrow> (Inl e, out)
            | Inr elems \<Rightarrow>
                (case first_with_digit elems of
                   Inl e \<Rightarrow> (Inl e, out)
                 | Inr None \<Rightarrow> (Inr total_text, out)
                 | Inr (Some t) \<Rightarrow>
                     (Inr (Some t), out @ [asc ''Found alternative total text: '' @ t]))))"

text \<open>
  Lines 130-138: the number in the matched text, \<open>Inr None\<close> when there is no text or
  no number in it, \<open>Inl\<close> for the \<open>ValueError\<close> of \<open>int\<close>.
\<close>

definition parse_total_text :: "pystr option \<Rightarrow> pystr + int option" where
  "parse_total_text total_text =
     (case total_text of
        None \<Rightarrow> Inr None
      | Some t \<Rightarrow>
          if t = [] then Inr None
          else
            (case re_findall_digits t of
               [] \<Rightarrow> Inr None
             | n # ns \<Rightarrow>
                 (case py_int n of Inl e \<Rightarrow> Inl e | Inr v \<Rightarrow> Inr (Some v))))"

text \<open>
  Lines 144-153: the candidates in turn; an exception ends the scan and is dropped
  (line 154), like a scan that finds nothing.
\<close>

fun scan_candidates :: "(pystr + pystr) list \<Rightarrow> int option \<times> pystr list" where
  "scan_candidates [] = (None, [])"
| "scan_candidates (Inl e # elems) = (None, [])"
| "scan_candidates (Inr raw # elems) =
     (let t = py_strip raw
      in if t = [] then scan_candidates elems
         else
           (let l = asc ''Candidate element text: '' @ t
            in case re_findall_digits t of
                 [] \<Rightarrow> (let (r, out) = scan_candidates elems in (r, l # out))
               | n # ns \<Rightarrow>
                   (case py_int n of
                      Inl e \<Rightarrow> (None, [l])
                    | Inr v \<Rightarrow>
                        (Some v, [l, asc ''Extracted total from candidate: '' @ str_int v]))))"

text \<open>
  Line 161: \<open>re.search\<close> of \<open>(\d{1,6})\s*(k1|k2|k3|k4)\<close>, returning group 1 of the
  leftmost match. At one position the digits are tried longest first, and so are the
  blanks.
\<close>

definition keyword_at :: "pystr \<Rightarrow> bool" where
  "keyword_at r = list_ex (\<lambda>k. take (length k) r = k) counter_keywords"

definition blanks_then_keyword :: "pystr \<Rightarrow> bool" where
  "blanks_then_keyword r =
     list_ex (\<lambda>j. keyword_at (drop j r)) (rev [0 ..< Suc (length (takeWhile py_isspace r))])"

fun try_digits :: "nat \<Rightarrow> pystr \<Rightarrow> pystr option" where
  "try_digits 0 s = None"
| "try_digits (Suc n) s =
     (if blanks_then_keyword (drop (Suc n) s) then Some (take (Suc n) s) else try_digits n s)"

definition match_here :: "pystr \<Rightarrow> pystr option" where
  "match_here s = try_digits (length (takeWhile is_nd (take 6 s))) s"

fun re_search_counter :: "pystr \<Rightarrow> pystr option" where
  "re_search_counter [] = None"
| "re_search_counter (c # cs) =
     (case match_here (c # cs) of Some g \<Rightarrow> Some g | None \<Rightarrow> re_search_counter cs)"

definition fallback_source :: "page \<Rightarrow> int option \<times> pystr list" where
  \<comment> \<open>lines 157-170\<close>
  "fallback_source pg =
     (let l = asc ''Fallback: searching page source for numeric counter patterns'';
          not_found = (None, [l, asc ''Warning: Could not find total results counter''])
      in case page_source pg of
           Inl e \<Rightarrow> not_found
         | Inr src \<Rightarrow>
             (case re_search_counter src of
                None \<Rightarrow> not_found
              | Some g \<Rightarrow>
                  (case py_int g of
                     Inl e \<Rightarrow> not_found
                   | Inr v \<Rightarrow>
                       (Some v, [l, asc ''Extracted total from page source: '' @ str_int v]))))"

definition fallback_elements :: "page \<Rightarrow> int option \<times> pystr list" where
  \<comment> \<open>lines 140-170\<close>
  "fallback_elements pg =
     (case find_texts pg XPATH xpath_candidates of
        Inl e \<Rightarrow> (let (r, out) = fallback_source pg in (r, txt_fallback_elements # out))
      | Inr elems \<Rightarrow>
          (case scan_candidates elems of
             (Some v, out) \<Rightarrow> (Some v, txt_fallback_elements # out)
           | (None, out) \<Rightarrow>
               (let (r, out') = fallback_source pg in (r, txt_fallback_elements # out @ out'))))"

definition get_total_results :: "config \<Rightarrow> page \<Rightarrow> int option \<times> pystr list" where
  \<comment> \<open>lines 83-174\<close>
  "get_total_results cfg pg =
     (let l = asc ''Loading Yad2: '' @ url cfg
      in case get_error pg of
           Some e \<Rightarrow> (None, [l, asc ''Error getting total results: '' @ e])
         | None \<Rightarrow>
             (case find_total_text pg of
                (Inl e, out) \<Rightarrow> (None, l # out @ [asc ''Error getting total results: '' @ e])
              | (Inr total_text, out) \<Rightarrow>
                  (case parse_total_text total_text of
                     Inl e \<Rightarrow> (None, l # out @ [asc ''Error getting total results: '' @ e])
                   | Inr (Some v) \<Rightarrow> (Some v, l # out @ [asc ''Extracted total: '' @ str_int v])
                   | Inr None \<Rightarrow> (let (r, out') = fallback_elements pg in (r, l # out @ out')))))"

section \<open>Listing extractor\<close>

text \<open>
  Like the counter extractor, \<open>get_new_listings\<close> changes nothing but the console:
  it returns its list together with the lines it prints.
\<close>

definition listing_selectors :: "pystr list" where \<comment> \<open>lines 185-191\<close>
  "listing_selectors =
    [asc ''div[data-testid='' @ [0x27] @ asc ''feed-item'' @ [0x27] @ asc '']'',
     asc ''div.feed-item_feedItem__Hn7A7'',
     asc ''div[class*='' @ [0x27] @ asc ''feedItem'' @ [0x27] @ asc '']'',
     asc ''article[class*='' @ [0x27] @ asc ''item'' @ [0x27] @ asc '']'',
     asc ''div.ad-container'']"

definition title_selectors :: "pystr list" where \<comment> \<open>line 206\<close>
  "title_selectors =
    [asc ''h3'',
     asc ''h4'',
     asc ''[class*='' @ [0x27] @ asc ''title'' @ [0x27] @ asc '']'',
     asc ''a[class*='' @ [0x27] @ asc ''title'' @ [0x27] @ asc '']'']"

definition price_selectors :: "pystr list" where \<comment> \<open>line 217\<close>
  "price_selectors =
    [asc ''[class*='' @ [0x27] @ asc ''price'' @ [0x27] @ asc '']'',
     asc ''span[class*='' @ [0x27] @ asc ''price'' @ [0x27] @ asc '']'',
     asc ''[data-testid*='' @ [0x27] @ asc ''price'' @ [0x27] @ asc '']'']"

definition txt_currency :: pystr where \<comment> \<open>line 221\<close>
  "txt_currency = [0xE2, 0x201A, 0xAA]"

text \<open>\<open>p in s\<close> for two strings: \<open>p\<close> occurs in \<open>s\<close>.\<close>

fun contains :: "pystr \<Rightarrow> pystr \<Rightarrow> bool" where
  "contains p [] = (p = [])"
| "contains p (c # cs) = (take (length p) (c # cs) = p \<or> contains p cs)"

text \<open>
  Lines 194-198: the containers of the first selector that yields any (\<open>Inl\<close>:
  \<open>find_elements\<close> raises, which ends the extraction at line 246).
\<close>

fun find_listings :: "page \<Rightarrow> pystr list \<Rightarrow> pystr + element list \<times> pystr list" where
  "find_listings pg [] = Inr ([], [])"
| "find_listings pg (selector # selectors) =
     (case containers pg selector of
        Inl e \<Rightarrow> Inl e
      | Inr listings \<Rightarrow>
          if listings \<noteq> []
          then Inr (listings,
                 [asc ''Found '' @ str_nat (length listings) @
                  asc '' listings with selector: '' @ selector])
          else find_listings pg selectors)"

text \<open>Lines 207-214 and 218-225: the first selector that gives an acceptable text.\<close>

fun first_title :: "element \<Rightarrow> pystr list \<Rightarrow> pystr option" where
  "first_title listing [] = None"
| "first_title listing (sel # sels) =
     (case child_text listing sel of
        None \<Rightarrow> first_title listing sels
      | Some t \<Rightarrow> if t \<noteq> [] then Some t else first_title listing sels)"

fun first_price :: "element \<Rightarrow> pystr list \<Rightarrow> pystr option" where
  "first_price listing [] = None"
| "first_price listing (sel # sels) =
     (case child_text listing sel of
        None \<Rightarrow> first_price listing sels
      | Some p \<Rightarrow>
          if p \<noteq> [] \<and> (contains txt_currency p \<or> list_ex py_isdigit p)
          then Some p
          else first_price listing sels)"

text \<open>
  Lines 201-244: one dictionary for each container whose text can be read; for the
  others the error is printed and the container skipped.
\<close>

fun extract_listings :: "element list \<Rightarrow> listing list \<times> pystr list" where
  "extract_listings [] = ([], [])"
| "extract_listings (listing # listings) =
     (let (cars, out) = extract_listings listings
      in case element_text listing of
           Inl e \<Rightarrow> (cars, (asc ''Error extracting listing details: '' @ e) # out)
         | Inr t \<Rightarrow>
             (\<lparr>title = first_title listing title_selectors,
               price = first_price listing price_selectors,
               link = (case anchor_href listing of
                         None \<Rightarrow> None
                       | Some l \<Rightarrow> if l \<noteq> [] then Some l else None),
               details = Some (take 300 t)\<rparr> # cars,
              out))"

definition get_new_listings :: "page \<Rightarrow> listing list \<times> pystr list" where
  \<comment> \<open>lines 176-249\<close>
  "get_new_listings pg =
     (case find_listings pg listing_selectors of
        Inl e \<Rightarrow> ([], [asc ''Error getting new listings: '' @ e])
      | Inr (listings, out) \<Rightarrow>
          (let (cars, out') = extract_listings (take 5 listings) in (cars, out @ out')))"

section \<open>Formatting the change notification\<close>

text \<open>\<open>car.get(key)\<close> used as a condition: the key is present and its text not empty.\<close>

definition get_nonempty :: "pystr option \<Rightarrow> pystr option" where
  "get_nonempty v = (case v of None \<Rightarrow> None | Some t \<Rightarrow> if t = [] then None else Some t)"

fun render_listings :: "nat \<Rightarrow> listing list \<Rightarrow> pystr" where \<comment> \<open>lines 287-294\<close>
  "render_listings i [] = []"
| "render_listings i (car # cars) =
     (case get_nonempty (title car) of
        None \<Rightarrow> []
      | Some t \<Rightarrow> [10] @ str_nat i @ asc ''. '' @ t) @
     (case get_nonempty (price car) of
        None \<Rightarrow> []
      | Some p \<Rightarrow> txt_price_prefix @ p) @
     (case get_nonempty (link car) of
        None \<Rightarrow> []
      | Some l \<Rightarrow> txt_listing_link_open @ l @ txt_listing_link_close) @
     [10] @ render_listings (Suc i) cars"

definition format_notification ::
  "config \<Rightarrow> env \<Rightarrow> int \<Rightarrow> int \<Rightarrow> listing list \<Rightarrow> system \<Rightarrow> pystr \<times> system" where
  \<comment> \<open>lines 271-298\<close>
  "format_notification cfg ev old_total new_total new_listings s =
     (let diff = new_total - old_total;
          message =
            (if diff > 0
             then txt_increase_header @
                  txt_total_now @ str_int new_total @ asc '' ('' @ fmt_plus_d diff @ txt_new_suffix
             else txt_decrease_header @
                  txt_total_now @ str_int new_total @ asc '' ('' @ fmt_plus_d diff @ asc '')'' @ [10]);
          message = message @ txt_link_open @ url cfg @ txt_all_ads_close;
          message =
            (if new_listings \<noteq> [] \<and> diff > 0
             then message @ txt_new_cars_title @ render_listings 1 (take 3 new_listings)
             else message);
          (t, s1) = now ev s
      in (message @ txt_clock_prefix @ strftime (asc ''%H:%M - %d/%m/%Y'') t, s1))"

section \<open>Monitor orchestrator\<close>

definition setup_driver :: "env \<Rightarrow> system \<Rightarrow> pystr + system" where \<comment> \<open>lines 56-75\<close>
  "setup_driver ev s =
     (case driver_error ev of Some e \<Rightarrow> Inl e | None \<Rightarrow> Inr (s\<lparr>driver := True\<rparr>))"

definition close_driver :: "system \<Rightarrow> system" where \<comment> \<open>lines 77-81\<close>
  "close_driver s = (if driver s then s\<lparr>driver := False\<rparr> else s)"

definition warning_message :: "config \<Rightarrow> pystr" where \<comment> \<open>lines 316-319\<close>
  "warning_message cfg = txt_warning_head @ url cfg @ txt_warning_tail"

definition welcome_message :: "config \<Rightarrow> int \<Rightarrow> pystr" where \<comment> \<open>lines 336-340\<close>
  "welcome_message cfg current_total =
     txt_welcome_head @ str_int current_total @ txt_welcome_mid @ url cfg @ txt_welcome_tail"

definition status_message :: "int \<Rightarrow> nat \<Rightarrow> datetime \<Rightarrow> pystr" where \<comment> \<open>lines 383-387\<close>
  "status_message current_total check_count t =
     txt_status_head @ str_int current_total @ txt_status_checks @ str_nat check_count @
     txt_status_last @ strftime (asc ''%H:%M'') t"

definition error_message :: "pystr \<Rightarrow> pystr" where \<comment> \<open>lines 393-395\<close>
  "error_message e = txt_error_head @ take 200 e @ txt_error_tail"

definition first_run :: "config \<Rightarrow> env \<Rightarrow> int \<Rightarrow> system \<Rightarrow> system" where
  \<comment> \<open>lines 327-342\<close>
  "first_run cfg ev current_total s =
     (let s1 = print_line (asc ''First run - initializing'') s;
          s2 = s1\<lparr>data := (data s1)\<lparr>last_total := current_total\<rparr>\<rparr>;
          (t, s3) = now ev s2;
          s4 = s3\<lparr>data := (data s3)\<lparr>history := history (data s3) @
                 [\<lparr>timestamp = isoformat t, total = current_total, change = None\<rparr>]\<rparr>\<rparr>;
          s5 = save_data ev s4
      in snd (send_telegram_message cfg ev (welcome_message cfg current_total) s5))"

definition change_detected :: "config \<Rightarrow> env \<Rightarrow> int \<Rightarrow> int \<Rightarrow> system \<Rightarrow> system" where
  \<comment> \<open>lines 348-375\<close>
  "change_detected cfg ev current_total diff s =
     (let s1 = print_line (asc ''Change detected: '' @ fmt_plus_d diff) s;
          (new_listings, s2) =
            (if diff > 0
             then (let (ls, out) = get_new_listings (page ev) in (ls, print_lines out s1))
             else ([], s1));
          (message, s3) =
            format_notification cfg ev (last_total (data s2)) current_total new_listings s2;
          s4 = snd (send_telegram_message cfg ev message s3);
          s5 = s4\<lparr>data := (data s4)\<lparr>last_total := current_total\<rparr>\<rparr>;
          (t, s6) = now ev s5;
          s7 = s6\<lparr>data := (data s6)\<lparr>history := history (data s6) @
                 [\<lparr>timestamp = isoformat t, total = current_total, change = Some diff\<rparr>]\<rparr>\<rparr>;
          s8 = (if length (history (data s7)) > 100
                then s7\<lparr>data := (data s7)\<lparr>history :=
                       drop (length (history (data s7)) - 100) (history (data s7))\<rparr>\<rparr>
                else s7)
      in save_data ev s8)"

definition no_change :: "config \<Rightarrow> env \<Rightarrow> int \<Rightarrow> system \<Rightarrow> system" where
  \<comment> \<open>lines 377-388\<close>
  "no_change cfg ev current_total s =
     (let s1 = print_line (asc ''No change in total listings'') s;
          check_count = length (history (data s1))
      in if check_count mod 50 = 0 \<and> check_count > 0
         then (let (t, s2) = now ev s1
               in snd (send_telegram_message cfg ev (status_message current_total check_count t) s2))
         else s1)"

definition monitor :: "config \<Rightarrow> env \<Rightarrow> system \<Rightarrow> system" where
  \<comment> \<open>lines 308-388, the body of \<open>try\<close>, once the browser has started\<close>
  "monitor cfg ev s =
     (case get_total_results cfg (page ev) of
        (None, out) \<Rightarrow>
          snd (send_telegram_message cfg ev (warning_message cfg)
                 (print_line (asc ''Could not get total results count'') (print_lines out s)))
      | (Some current_total, out) \<Rightarrow>
          (let s1 = print_lines out s;
               s2 = print_line (asc ''Current total: '' @ str_int current_total) s1
           in if last_total (data s2) = 0 then first_run cfg ev current_total s2
              else
                (let diff = current_total - last_total (data s2)
                 in if diff \<noteq> 0 then change_detected cfg ev current_total diff s2
                    else no_change cfg ev current_total s2)))"

definition run :: "config \<Rightarrow> env \<Rightarrow> system \<Rightarrow> system" where \<comment> \<open>lines 300-399\<close>
  "run cfg ev s =
     (let s1 = print_line (asc ''=== Yad2 Monitor Started ==='') s;
          (t, s2) = now ev s1;
          s3 = print_line (asc ''Time: '' @ strftime (asc ''%Y-%m-%d %H:%M:%S'') t) s2;
          s4 = print_line (asc ''URL: '' @ url cfg) s3;
          s5 = print_line (asc ''Last total: '' @ str_int (last_total (data s4))) s4;
          s6 = (case setup_driver ev s5 of
                  Inr s' \<Rightarrow> monitor cfg ev s'
                | Inl e \<Rightarrow>
                    snd (send_telegram_message cfg ev (error_message e)
                           (print_line (asc ''Error in monitoring: '' @ e) s5)))
      in print_line (asc ''=== Monitor Completed ==='') (close_driver s6))"

section \<open>Notions of the specification\<close>

text \<open>
  The texts of the notifications that one run sends, oldest first: the requests that
  the run adds to those issued before.
\<close>

definition sent_by :: "config \<Rightarrow> env \<Rightarrow> system \<Rightarrow> pystr list" where
  "sent_by cfg ev s = map message_text (drop (length (posted s)) (posted (run cfg ev s)))"

text \<open>
  A notification is told by its header: a change notification opens with the header
  of an increase (line 276) or of a decrease (line 279), a status notification with the
  header of line 383.
\<close>

definition starts_with :: "pystr \<Rightarrow> pystr \<Rightarrow> bool" where
  "starts_with p m = (take (length p) m = p)"

definition is_change_notification :: "pystr \<Rightarrow> bool" where
  "is_change_notification m =
     (starts_with txt_increase_header m \<or> starts_with txt_decrease_header m)"

definition is_status_notification :: "pystr \<Rightarrow> bool" where
  "is_status_notification m = starts_with txt_status_head m"

text \<open>
  The first maximal run of decimal digits of a text, and the integer that a run of
  digits forms, read in positional notation with the most significant digit first.
\<close>

definition first_digit_run :: "pystr \<Rightarrow> pystr" where
  "first_digit_run t = takeWhile is_nd (dropWhile (\<lambda>c. \<not> is_nd c) t)"

fun number_of_run :: "pystr \<Rightarrow> nat" where
  "number_of_run [] = 0"
| "number_of_run (c # cs) =
     (case nd_value c of None \<Rightarrow> 0 | Some d \<Rightarrow> d) * 10 ^ length cs + number_of_run cs"

text \<open>The \<open>n\<close> most recent entries of a history, which has its most recent entry last.\<close>

definition most_recent :: "nat \<Rightarrow> 'a list \<Rightarrow> 'a list" where
  "most_recent n h = drop (length h - n) h"

text \<open>
  Two states that differ in \<open>last_check\<close> at most, and a storage file that holds a
  state differing from a given one in \<open>last_check\<close> at most.
\<close>

definition same_but_last_check :: "monitor_data \<Rightarrow> monitor_data \<Rightarrow> bool" where
  "same_but_last_check d d' =
     (last_total d' = last_total d \<and> history d' = history d \<and>
      seen_car_ids d' = seen_car_ids d)"

definition persisted_same_but_last_check :: "monitor_data \<Rightarrow> stored \<Rightarrow> bool" where
  "persisted_same_but_last_check d st =
     (case st of
        Json d' \<Rightarrow> same_but_last_check d d'
      | Absent \<Rightarrow> False
      | Unreadable e \<Rightarrow> False)"








section \<open>Sample inputs\<close>

text \<open>
  A configuration, a page whose counter element shows a given text, a page that does
  not load, an environment around a page and one reply of the chat API, and a state
  whose file holds the data in memory, with \<open>n\<close> entries of history.
\<close>

definition sample_config :: config where
  "sample_config =
     \<lparr>url = asc ''https://www.yad2.co.il/vehicles/cars'', telegram_bot_token = asc ''TOKEN'',
      telegram_chat_id = asc ''42'', storage_file = asc ''yad2_data.json''\<rparr>"

definition counter_page :: "pystr \<Rightarrow> page" where
  "counter_page t =
     \<lparr>get_error = None, wait_text = (\<lambda>b selector. Some t),
      find_texts = (\<lambda>b selector. Inr []), page_source = Inr [],
      containers = (\<lambda>selector. Inr [])\<rparr>"

definition dead_page :: page where
  "dead_page =
     \<lparr>get_error = Some (asc ''net::ERR_NAME_NOT_RESOLVED''), wait_text = (\<lambda>b selector. None),
      find_texts = (\<lambda>b selector. Inr []), page_source = Inr [],
      containers = (\<lambda>selector. Inr [])\<rparr>"

definition sample_env :: "http_outcome \<Rightarrow> page \<Rightarrow> env" where
  "sample_env reply pg =
     \<lparr>clock = (\<lambda>k. \<lparr>year = 2025, month = 3, day = 7, hour = 9, minute = 5, second = k,
                     microsecond = 0\<rparr>),
      http = (\<lambda>k. reply), disk = (\<lambda>k. Written), driver_error = None, page = pg\<rparr>"


definition sample_data :: "int \<Rightarrow> nat \<Rightarrow> monitor_data" where
  "sample_data t n =
     \<lparr>last_total = t, last_check = None,
      history = replicate n \<lparr>timestamp = asc ''2025-03-06T09:00:00'', total = t, change = None\<rparr>,
      seen_car_ids = []\<rparr>"

definition sample_system :: "monitor_data \<Rightarrow> system" where
  "sample_system d =
     \<lparr>data = d, driver = False, storage = Json d, posted = [], stdout = [], ticks = 0,
      writes = 0\<rparr>"

definition reply_ok :: http_outcome where
  "reply_ok = Responded 200 []"

definition reply_server_error :: http_outcome where
  "reply_server_error = Responded 500 (asc ''500 Server Error'')"

definition text_found_1234 :: pystr where
  "text_found_1234 =
     [0x5E0, 0x5DE, 0x5E6, 0x5D0, 0x5D5] @ asc '' 1234 '' @
     [0x5DE, 0x5D5, 0x5D3, 0x5E2, 0x5D5, 0x5EA]"

definition text_long_run :: pystr where
  "text_long_run = replicate 4301 48"

definition text_zero_ads :: pystr where
  "text_zero_ads = asc ''0 '' @ [0x5DE, 0x5D5, 0x5D3, 0x5E2, 0x5D5, 0x5EA]"

section \<open>Facts about the parts of a run\<close>

lemma print_line_fields [simp]:
  "data (print_line l s) = data s" "driver (print_line l s) = driver s"
  "storage (print_line l s) = storage s" "posted (print_line l s) = posted s"
  "ticks (print_line l s) = ticks s" "writes (print_line l s) = writes s"
  "stdout (print_line l s) = stdout s @ [l]"
  by (simp_all add: print_line_def)

lemma print_lines_fields [simp]:
  "data (print_lines ls s) = data s" "driver (print_lines ls s) = driver s"
  "storage (print_lines ls s) = storage s" "posted (print_lines ls s) = posted s"
  "ticks (print_lines ls s) = ticks s" "writes (print_lines ls s) = writes s"
  "stdout (print_lines ls s) = stdout s @ ls"
  by (simp_all add: print_lines_def)

lemma now_fields [simp]:
  "fst (now ev s) = clock ev (ticks s)"
  "data (snd (now ev s)) = data s" "driver (snd (now ev s)) = driver s"
  "storage (snd (now ev s)) = storage s" "posted (snd (now ev s)) = posted s"
  "ticks (snd (now ev s)) = Suc (ticks s)" "writes (snd (now ev s)) = writes s"
  "stdout (snd (now ev s)) = stdout s"
  by (simp_all add: now_def)

lemma send_fields [simp]:
  "data (snd (send_telegram_message cfg ev m s)) = data s"
  "driver (snd (send_telegram_message cfg ev m s)) = driver s"
  "storage (snd (send_telegram_message cfg ev m s)) = storage s"
  "ticks (snd (send_telegram_message cfg ev m s)) = ticks s"
  "writes (snd (send_telegram_message cfg ev m s)) = writes s"
  "length (posted (snd (send_telegram_message cfg ev m s))) = Suc (length (posted s))"
  by (simp_all add: send_telegram_message_def Let_def split: http_outcome.splits)

lemma send_posted:
  "n = length (posted s) \<Longrightarrow>
   drop n (posted (snd (send_telegram_message cfg ev m s))) =
   [\<lparr>post_url = asc ''https://api.telegram.org/bot'' @ telegram_bot_token cfg @ asc ''/sendMessage'',
     chat_id = telegram_chat_id cfg, message_text = m, parse_mode = asc ''HTML'',
     disable_web_page_preview = False, post_timeout = 10\<rparr>]"
  by (simp add: send_telegram_message_def Let_def split: http_outcome.splits)

lemma send_result:
  "fst (send_telegram_message cfg ev m s) =
     (case http ev (length (posted s)) of
        Failed e \<Rightarrow> False
      | Responded code e \<Rightarrow> \<not> (400 \<le> code \<and> code < 600))"
  by (simp add: send_telegram_message_def Let_def split: http_outcome.splits)

lemma save_fields [simp]:
  "data (save_data ev s) = (data s)\<lparr>last_check := Some (isoformat (clock ev (ticks s)))\<rparr>"
  "driver (save_data ev s) = driver s"
  "posted (save_data ev s) = posted s"
  "ticks (save_data ev s) = Suc (ticks s)"
  "writes (save_data ev s) = Suc (writes s)"
  by (simp_all add: save_data_def Let_def now_def split: write_outcome.splits)

lemma save_storage:
  "storage (save_data ev s) =
     (case disk ev (writes s) of
        Written \<Rightarrow> Json ((data s)\<lparr>last_check := Some (isoformat (clock ev (ticks s)))\<rparr>)
      | OpenFails e \<Rightarrow> storage s
      | DumpFails e e' \<Rightarrow> Unreadable e')"
  by (simp add: save_data_def Let_def now_def split: write_outcome.splits)

lemma close_fields [simp]:
  "data (close_driver s) = data s" "driver (close_driver s) = False"
  "storage (close_driver s) = storage s" "posted (close_driver s) = posted s"
  "ticks (close_driver s) = ticks s" "writes (close_driver s) = writes s"
  by (simp_all add: close_driver_def)

lemma format_fields [simp]:
  "snd (format_notification cfg ev old new ls s) = snd (now ev s)"
  by (simp add: format_notification_def Let_def split_def)

subsection \<open>Headers\<close>

lemma starts_with_simps [simp]:
  "starts_with [] m" "\<not> starts_with (a # p) []"
  "starts_with (a # p) (b # m) = (a = b \<and> starts_with p m)"
  by (auto simp: starts_with_def)

lemma starts_with_append [simp]: "starts_with p (p @ m)"
  by (simp add: starts_with_def)

lemma increase_not_decrease:
  "\<not> starts_with txt_decrease_header (txt_increase_header @ m)"
  "\<not> starts_with txt_increase_header (txt_decrease_header @ m)"
  by (simp_all add: txt_decrease_header_def txt_increase_header_def)

lemma other_headers:
  "\<not> is_change_notification (welcome_message cfg c)"
  "\<not> is_change_notification (status_message c n t)"
  "\<not> is_change_notification (warning_message cfg)"
  "\<not> is_change_notification (error_message e)"
  by (simp_all add: is_change_notification_def welcome_message_def status_message_def
      warning_message_def error_message_def txt_decrease_header_def txt_increase_header_def
      txt_welcome_head_def txt_status_head_def txt_warning_head_def txt_error_head_def)

lemma status_header: "is_status_notification (status_message c n t)"
  by (simp add: is_status_notification_def status_message_def)

lemma format_header:
  "starts_with txt_increase_header (fst (format_notification cfg ev old new ls s)) = (0 < new - old)"
  "starts_with txt_decrease_header (fst (format_notification cfg ev old new ls s)) = (\<not> 0 < new - old)"
  by (simp_all add: format_notification_def Let_def split_def increase_not_decrease)

subsection \<open>The history cap\<close>


lemma length_most_recent [simp]: "length (most_recent n h) = min n (length h)"
  by (simp add: most_recent_def)

subsection \<open>Digit runs\<close>

lemma findall_skip:
  "\<forall>c\<in>set pre. \<not> is_nd c \<Longrightarrow> findall_from [] (pre @ t) = findall_from [] t"
  by (induction pre) simp_all

lemma findall_run:
  assumes "\<forall>c\<in>set ds. is_nd c" and "cur @ ds \<noteq> []" and "rest = [] \<or> \<not> is_nd (hd rest)"
  shows "\<exists>ns. findall_from cur (ds @ rest) = (cur @ ds) # ns"
  using assms
proof (induction ds arbitrary: cur)
  case Nil
  then show ?case by (cases rest) auto
next
  case (Cons d ds)
  from Cons.prems have "\<exists>ns. findall_from (cur @ [d]) (ds @ rest) = ((cur @ [d]) @ ds) # ns"
    by (intro Cons.IH) auto
  with Cons.prems show ?case by simp
qed

lemma int_from_run:
  "\<forall>c\<in>set ds. is_nd c \<Longrightarrow> int_from a ds = Some (a * 10 ^ length ds + number_of_run ds)"
proof (induction ds arbitrary: a)
  case Nil
  then show ?case by simp
next
  case (Cons d ds)
  then obtain v where v: "nd_value d = Some v" by (auto simp: is_nd_def)
  from Cons have "int_from (10 * a + v) ds = Some ((10 * a + v) * 10 ^ length ds + number_of_run ds)"
    by simp
  with v show ?case by (simp add: algebra_simps)
qed

lemma first_digit_run_digits: "\<forall>c\<in>set (first_digit_run t). is_nd c"
  by (auto simp: first_digit_run_def dest: set_takeWhileD)

lemma first_digit_run_nonempty:
  assumes "\<exists>c\<in>set t. is_nd c"
  shows "first_digit_run t \<noteq> []"
proof -
  let ?r = "dropWhile (\<lambda>c. \<not> is_nd c) t"
  from assms have "?r \<noteq> []" by (auto simp: dropWhile_eq_Nil_conv)
  moreover from this have "is_nd (hd ?r)" using hd_dropWhile [of "\<lambda>c. \<not> is_nd c" t] by simp
  ultimately show ?thesis by (cases ?r) (auto simp: first_digit_run_def)
qed

lemma findall_first:
  assumes "\<exists>c\<in>set t. is_nd c"
  shows "\<exists>ns. re_findall_digits t = first_digit_run t # ns"
proof -
  let ?pre = "takeWhile (\<lambda>c. \<not> is_nd c) t"
  let ?r = "dropWhile (\<lambda>c. \<not> is_nd c) t"
  let ?rest = "dropWhile is_nd ?r"
  have t: "t = ?pre @ first_digit_run t @ ?rest" by (simp add: first_digit_run_def)
  have pre: "\<forall>c\<in>set ?pre. \<not> is_nd c" by (auto dest: set_takeWhileD)
  have rest: "?rest = [] \<or> \<not> is_nd (hd ?rest)"
    using hd_dropWhile [of is_nd ?r] by blast
  have "findall_from [] t = findall_from [] (first_digit_run t @ ?rest)"
    using findall_skip [OF pre, of "first_digit_run t @ ?rest"] t by simp
  moreover have "\<exists>ns. findall_from [] (first_digit_run t @ ?rest) = ([] @ first_digit_run t) # ns"
    using first_digit_run_digits first_digit_run_nonempty [OF assms] rest
    by (intro findall_run) auto
  ultimately show ?thesis by (simp add: re_findall_digits_def)
qed

lemma parse_total_text_digits:
  assumes "\<exists>c\<in>set t. is_nd c" and "length (first_digit_run t) \<le> int_max_str_digits"
  shows "parse_total_text (Some t) = Inr (Some (int (number_of_run (first_digit_run t))))"
proof -
  from findall_first [OF assms(1)] obtain ns
    where ns: "re_findall_digits t = first_digit_run t # ns" ..
  have "py_int (first_digit_run t) = Inr (int (number_of_run (first_digit_run t)))"
    using int_from_run [OF first_digit_run_digits, of 0 t] first_digit_run_nonempty [OF assms(1)]
      assms(2)
    by (simp add: py_int_def)
  moreover from assms(1) have "t \<noteq> []" by auto
  ultimately show ?thesis using ns by (simp add: parse_total_text_def)
qed

lemma parse_total_text_long:
  assumes "\<exists>c\<in>set t. is_nd c" and "int_max_str_digits < length (first_digit_run t)"
  shows "parse_total_text (Some t) = Inl (int_limit_error (length (first_digit_run t)))"
proof -
  from findall_first [OF assms(1)] obtain ns
    where ns: "re_findall_digits t = first_digit_run t # ns" ..
  have "py_int (first_digit_run t) = Inl (int_limit_error (length (first_digit_run t)))"
    using first_digit_run_nonempty [OF assms(1)] assms(2) by (simp add: py_int_def)
  moreover from assms(1) have "t \<noteq> []" by auto
  ultimately show ?thesis using ns by (simp add: parse_total_text_def)
qed

subsection \<open>The branches of a run\<close>


lemma save_storage_data:
  "storage (save_data ev s) =
     (case disk ev (writes s) of
        Written \<Rightarrow> Json (data (save_data ev s))
      | OpenFails e \<Rightarrow> storage s
      | DumpFails e e' \<Rightarrow> Unreadable e')"
  by (simp add: save_data_def Let_def now_def split: write_outcome.splits)

lemma send_text:
  "n = length (posted s) \<Longrightarrow>
   map message_text (drop n (posted (snd (send_telegram_message cfg ev m s)))) = [m]"
  by (simp add: send_posted)

lemma format_message_ticks:
  "fst (format_notification cfg ev a b ls s) =
   fst (format_notification cfg ev a b ls (s0\<lparr>ticks := ticks s\<rparr>))"
  by (simp add: format_notification_def Let_def split_def now_def)

lemma first_run_fields:
  "data (first_run cfg ev c s) = (data s)\<lparr>last_total := c, history := history (data s) @
            [\<lparr>timestamp = isoformat (clock ev (ticks s)), total = c, change = None\<rparr>],
            last_check := Some (isoformat (clock ev (Suc (ticks s))))\<rparr>"
  "writes (first_run cfg ev c s) = Suc (writes s)"
  "n = length (posted s) \<Longrightarrow>
     map message_text (drop n (posted (first_run cfg ev c s))) = [welcome_message cfg c]"
  by (simp_all add: first_run_def Let_def split_def send_text)

lemma first_run_storage:
  "storage (first_run cfg ev c s) =
     (case disk ev (writes s) of
        Written \<Rightarrow> Json (data (first_run cfg ev c s))
      | OpenFails e \<Rightarrow> storage s
      | DumpFails e e' \<Rightarrow> Unreadable e')"
proof -
  define s4 where "s4 = (snd (now ev (print_line (asc ''First run - initializing'') s
        \<lparr>data := (data (print_line (asc ''First run - initializing'') s))\<lparr>last_total := c\<rparr>\<rparr>)))
      \<lparr>data := (data (snd (now ev (print_line (asc ''First run - initializing'') s
        \<lparr>data := (data (print_line (asc ''First run - initializing'') s))\<lparr>last_total := c\<rparr>\<rparr>))))
        \<lparr>history := history (data (snd (now ev (print_line (asc ''First run - initializing'') s
        \<lparr>data := (data (print_line (asc ''First run - initializing'') s))\<lparr>last_total := c\<rparr>\<rparr>)))) @
           [\<lparr>timestamp = isoformat (fst (now ev (print_line (asc ''First run - initializing'') s
        \<lparr>data := (data (print_line (asc ''First run - initializing'') s))\<lparr>last_total := c\<rparr>\<rparr>))),
             total = c, change = None\<rparr>]\<rparr>\<rparr>"
  have eq: "first_run cfg ev c s =
      snd (send_telegram_message cfg ev (welcome_message cfg c) (save_data ev s4))"
    by (simp only: first_run_def Let_def split_def s4_def)
  have "writes s4 = writes s" "storage s4 = storage s" by (simp_all add: s4_def)
  then show ?thesis by (simp add: eq save_storage split: write_outcome.splits)
qed

lemma no_change_fields:
  "data (no_change cfg ev c s) = data s" "storage (no_change cfg ev c s) = storage s"
  "writes (no_change cfg ev c s) = writes s"
  "n = length (posted s) \<Longrightarrow> map message_text (drop n (posted (no_change cfg ev c s))) =
     (if length (history (data s)) mod 50 = 0 \<and> 0 < length (history (data s))
      then [status_message c (length (history (data s))) (clock ev (ticks s))]
      else [])"
  by (simp_all add: no_change_def Let_def split_def send_text)

lemma change_detected_fields:
  "data (change_detected cfg ev c d s) = (data s)\<lparr>last_total := c,
       history := most_recent 100 (history (data s) @
            [\<lparr>timestamp = isoformat (clock ev (Suc (ticks s))), total = c, change = Some d\<rparr>]),
       last_check := Some (isoformat (clock ev (Suc (Suc (ticks s)))))\<rparr>" (is ?D)
  "writes (change_detected cfg ev c d s) = Suc (writes s)" (is ?W)
  "storage (change_detected cfg ev c d s) =
     (case disk ev (writes s) of
        Written \<Rightarrow> Json (data (change_detected cfg ev c d s))
      | OpenFails e \<Rightarrow> storage s
      | DumpFails e e' \<Rightarrow> Unreadable e')" (is ?S)
  "map message_text (drop (length (posted s)) (posted (change_detected cfg ev c d s))) =
     [fst (format_notification cfg ev (last_total (data s)) c
            (if 0 < d then fst (get_new_listings (page ev)) else []) (s0\<lparr>ticks := ticks s\<rparr>))]" (is ?P)
proof -
  define s1 where "s1 = print_line (asc ''Change detected: '' @ fmt_plus_d d) s"
  define r where "r = (if 0 < d
     then (fst (get_new_listings (page ev)), print_lines (snd (get_new_listings (page ev))) s1)
     else ([], s1))"
  define fm where "fm = format_notification cfg ev (last_total (data (snd r))) c (fst r) (snd r)"
  define s4 where "s4 = snd (send_telegram_message cfg ev (fst fm) (snd fm))"
  define s5 where "s5 = s4\<lparr>data := (data s4)\<lparr>last_total := c\<rparr>\<rparr>"
  define tn where "tn = now ev s5"
  define s7 where "s7 = (snd tn)\<lparr>data := (data (snd tn))\<lparr>history := history (data (snd tn)) @
      [\<lparr>timestamp = isoformat (fst tn), total = c, change = Some d\<rparr>]\<rparr>\<rparr>"
  define s8 where "s8 = (if 100 < length (history (data s7))
      then s7\<lparr>data := (data s7)\<lparr>history :=
             drop (length (history (data s7)) - 100) (history (data s7))\<rparr>\<rparr>
      else s7)"
  have eq: "change_detected cfg ev c d s = save_data ev s8"
    by (simp only: change_detected_def Let_def split_def s8_def s7_def tn_def s5_def s4_def
        fm_def r_def s1_def)
  have r: "fst r = (if 0 < d then fst (get_new_listings (page ev)) else [])" "data (snd r) = data s"
    "ticks (snd r) = ticks s" "writes (snd r) = writes s" "storage (snd r) = storage s"
    "posted (snd r) = posted s"
    by (simp_all add: r_def s1_def)
  have fm: "snd fm = snd (now ev (snd r))"
    "fst fm = fst (format_notification cfg ev (last_total (data s)) c
            (if 0 < d then fst (get_new_listings (page ev)) else []) (s0\<lparr>ticks := ticks s\<rparr>))"
    using format_message_ticks [of cfg ev "last_total (data s)" c "fst r" "snd r" s0]
    by (simp_all add: fm_def r)
  have s4: "data s4 = data s" "ticks s4 = Suc (ticks s)" "writes s4 = writes s"
    "storage s4 = storage s"
    "map message_text (drop (length (posted s)) (posted s4)) = [fst fm]"
    by (simp_all add: s4_def fm(1) r send_text)
  have s7: "data s7 = (data s)\<lparr>last_total := c, history := history (data s) @
      [\<lparr>timestamp = isoformat (clock ev (Suc (ticks s))), total = c, change = Some d\<rparr>]\<rparr>"
    "ticks s7 = Suc (Suc (ticks s))" "writes s7 = writes s" "storage s7 = storage s"
    "posted s7 = posted s4"
    by (simp_all add: s7_def tn_def s5_def s4)
  have s8: "s8 = s7\<lparr>data := (data s7)\<lparr>history := most_recent 100 (history (data s7))\<rparr>\<rparr>"
    by (simp add: s8_def most_recent_def)
  show ?D by (simp add: eq s8 s7)
  show ?W by (simp add: eq s8 s7)
  show ?S by (simp add: eq save_storage s8 s7 split: write_outcome.splits)
  show ?P by (simp add: eq s8 s7 s4 fm(2))
qed


lemma change_detected_sent:
  "n = length (posted s) \<Longrightarrow>
   map message_text (drop n (posted (change_detected cfg ev c d s))) =
     [fst (format_notification cfg ev (last_total (data s)) c
            (if 0 < d then fst (get_new_listings (page ev)) else []) (s0\<lparr>ticks := ticks s\<rparr>))]"
  by (simp add: change_detected_fields(4))

subsection \<open>The sample inputs\<close>

lemma sample_fields [simp]:
  "driver_error (sample_env reply pg) = None" "page (sample_env reply pg) = pg"
  "http (sample_env reply pg) k = reply" "disk (sample_env reply pg) k = Written"
  "data (sample_system d) = d" "storage (sample_system d) = Json d"
  "ticks (sample_system d) = 0" "writes (sample_system d) = 0"
  "posted (sample_system d) = []"
  "last_total (sample_data t n) = t" "length (history (sample_data t n)) = n"
  "seen_car_ids (sample_data t n) = []"
  by (simp_all add: sample_env_def sample_system_def sample_data_def)

lemma counter_page_text:
  "t \<noteq> [] \<Longrightarrow> fst (find_total_text (counter_page t)) = Inr (Some t)"
  "get_error (counter_page t) = None"
  by (simp_all add: find_total_text_def counter_page_def total_selectors_def)

lemma counter_page_total:
  assumes "\<exists>c\<in>set t. is_nd c" and "length (first_digit_run t) \<le> int_max_str_digits"
  shows "fst (get_total_results cfg (counter_page t)) =
           Some (int (number_of_run (first_digit_run t)))"
proof -
  from assms(1) have "t \<noteq> []" by auto
  from counter_page_text(1) [OF this] show ?thesis
    using parse_total_text_digits [OF assms]
    by (cases "find_total_text (counter_page t)")
       (simp add: get_total_results_def counter_page_text(2))
qed

lemma counter_page_long:
  assumes "\<exists>c\<in>set t. is_nd c" and "int_max_str_digits < length (first_digit_run t)"
  shows "fst (get_total_results cfg (counter_page t)) = None"
proof -
  from assms(1) have "t \<noteq> []" by auto
  from counter_page_text(1) [OF this] show ?thesis
    using parse_total_text_long [OF assms]
    by (cases "find_total_text (counter_page t)")
       (simp add: get_total_results_def counter_page_text(2))
qed

lemma is_nd_ascii [simp]:
  "is_nd 48" "is_nd 49" "is_nd 50" "is_nd 51" "is_nd 52" "is_nd 53" "is_nd 55"
  "\<not> is_nd 32" "\<not> is_nd 97" "\<not> is_nd 1488" "\<not> is_nd 1493" "\<not> is_nd 1502"
  "\<not> is_nd 1504" "\<not> is_nd 1510"
  by (simp_all add: is_nd_def nd_value_def nd_zeros_def)

lemma nd_value_ascii [simp]:
  "nd_value 48 = Some 0" "nd_value 49 = Some 1" "nd_value 50 = Some 2" "nd_value 51 = Some 3"
  "nd_value 52 = Some 4" "nd_value 53 = Some 5" "nd_value 55 = Some 7"
  by (simp_all add: nd_value_def nd_zeros_def)

lemma sample_totals:
  "fst (get_total_results cfg (counter_page (asc ''0 ads''))) = Some 0"
  "fst (get_total_results cfg (counter_page (asc ''7 ads''))) = Some 7"
  "fst (get_total_results cfg (counter_page (asc ''10 ads''))) = Some 10"
  "fst (get_total_results cfg (counter_page (asc ''12 ads''))) = Some 12"
  "fst (get_total_results cfg (counter_page (asc ''15 ads''))) = Some 15"
  using counter_page_total [of "asc ''0 ads''" cfg] counter_page_total [of "asc ''7 ads''" cfg]
    counter_page_total [of "asc ''10 ads''" cfg] counter_page_total [of "asc ''12 ads''" cfg]
    counter_page_total [of "asc ''15 ads''" cfg]
  by (simp_all add: asc_def first_digit_run_def int_max_str_digits_def)


section \<open>One run\<close>

lemma run_started:
  assumes "driver_error ev = None"
  shows "run cfg ev s = print_line (asc ''=== Monitor Completed ==='') (close_driver (monitor cfg ev
    ((print_line (asc ''Last total: '' @ str_int (last_total (data s)))
      (print_line (asc ''URL: '' @ url cfg)
        (print_line (asc ''Time: '' @ strftime (asc ''%Y-%m-%d %H:%M:%S'') (clock ev (ticks s)))
          (snd (now ev (print_line (asc ''=== Yad2 Monitor Started ==='') s))))))\<lparr>driver := True\<rparr>)))"
  using assms by (simp add: run_def setup_driver_def Let_def split_def)


lemma monitor_some:
  assumes "fst (get_total_results cfg (page ev)) = Some c"
  shows "monitor cfg ev s =
     (if last_total (data s) = 0
      then first_run cfg ev c
             (print_line (asc ''Current total: '' @ str_int c)
                (print_lines (snd (get_total_results cfg (page ev))) s))
      else if c \<noteq> last_total (data s)
      then change_detected cfg ev c (c - last_total (data s))
             (print_line (asc ''Current total: '' @ str_int c)
                (print_lines (snd (get_total_results cfg (page ev))) s))
      else no_change cfg ev c
             (print_line (asc ''Current total: '' @ str_int c)
                (print_lines (snd (get_total_results cfg (page ev))) s)))"
  using assms by (cases "get_total_results cfg (page ev)") (simp add: monitor_def Let_def)


lemma first_run_facts:
  assumes "driver_error ev = None" and "fst (get_total_results cfg (page ev)) = Some c"
    and "last_total (data s) = 0"
  shows "sent_by cfg ev s = [welcome_message cfg c]"
    and "data (run cfg ev s) = (data s)\<lparr>last_total := c,
          history := history (data s) @
            [\<lparr>timestamp = isoformat (clock ev (Suc (ticks s))), total = c, change = None\<rparr>],
          last_check := Some (isoformat (clock ev (Suc (Suc (ticks s)))))\<rparr>"
    and "writes (run cfg ev s) = Suc (writes s)"
    and "storage (run cfg ev s) =
        (case disk ev (writes s) of Written \<Rightarrow> Json (data (run cfg ev s))
         | OpenFails e \<Rightarrow> storage s | DumpFails e e' \<Rightarrow> Unreadable e')"
  using assms(3)
  by (simp_all add: sent_by_def run_started [OF assms(1)] monitor_some [OF assms(2)]
      first_run_fields first_run_storage split: write_outcome.splits)

lemma change_run_facts:
  assumes "driver_error ev = None" and "fst (get_total_results cfg (page ev)) = Some c"
    and "last_total (data s) \<noteq> 0" and "c \<noteq> last_total (data s)"
  shows "data (run cfg ev s) = (data s)\<lparr>last_total := c,
          history := most_recent 100 (history (data s) @
            [\<lparr>timestamp = isoformat (clock ev (Suc (Suc (ticks s)))), total = c,
              change = Some (c - last_total (data s))\<rparr>]),
          last_check := Some (isoformat (clock ev (Suc (Suc (Suc (ticks s))))))\<rparr>"
    and "writes (run cfg ev s) = Suc (writes s)"
    and "storage (run cfg ev s) =
        (case disk ev (writes s) of Written \<Rightarrow> Json (data (run cfg ev s))
         | OpenFails e \<Rightarrow> storage s | DumpFails e e' \<Rightarrow> Unreadable e')"
    and "sent_by cfg ev s = [fst (format_notification cfg ev (last_total (data s)) c
           (if 0 < c - last_total (data s) then fst (get_new_listings (page ev)) else [])
           (s\<lparr>ticks := Suc (ticks s)\<rparr>))]"
  using assms(3,4)
  by (simp_all add: sent_by_def run_started [OF assms(1)] monitor_some [OF assms(2)]
      change_detected_fields(1,2,3) change_detected_sent [where ?s0.0 = s]
      split: write_outcome.splits)

lemma same_total_run:
  assumes "driver_error ev = None"
    and "fst (get_total_results cfg (page ev)) = Some (last_total (data s))"
    and "last_total (data s) \<noteq> 0"
  shows "data (run cfg ev s) = data s" and "storage (run cfg ev s) = storage s"
    and "writes (run cfg ev s) = writes s"
    and "sent_by cfg ev s =
      (if length (history (data s)) mod 50 = 0 \<and> 0 < length (history (data s))
       then [status_message (last_total (data s)) (length (history (data s)))
               (clock ev (Suc (ticks s)))]
       else [])"
  using assms(3)
  by (simp_all add: sent_by_def run_started [OF assms(1)] monitor_some [OF assms(2)]
      no_change_fields)








text \<open>
  Claim C1. With a stored \<open>last_total\<close> above 0 and an observed total \<open>c\<close>, the run
  sends a change notification exactly when \<open>c - last_total\<close> is not 0; the
  notification opens with the header of an increase exactly when the difference is
  positive and with the header of a decrease exactly when it is negative; and the run
  sends one notification at most.
\<close>

theorem change_notification_iff:
  assumes "driver_error ev = None" and "fst (get_total_results cfg (page ev)) = Some c"
    and "0 < last_total (data s)"
  shows "list_ex is_change_notification (sent_by cfg ev s) = (c - last_total (data s) \<noteq> 0)
    \<and> list_ex (starts_with txt_increase_header) (sent_by cfg ev s) = (0 < c - last_total (data s))
    \<and> list_ex (starts_with txt_decrease_header) (sent_by cfg ev s) = (c - last_total (data s) < 0)
    \<and> length (sent_by cfg ev s) \<le> 1"
proof (cases "c = last_total (data s)")
  case True
  from assms have nz: "last_total (data s) \<noteq> 0" by simp
  note facts = same_total_run [OF assms(1) assms(2) [unfolded True] nz]
  have "\<not> starts_with txt_increase_header (status_message a n t)"
    "\<not> starts_with txt_decrease_header (status_message a n t)" for a n t
    using other_headers(2) [of a n t] by (simp_all add: is_change_notification_def)
  then show ?thesis using True by (simp add: facts other_headers)
next
  case False
  from assms have nz: "last_total (data s) \<noteq> 0" by simp
  note facts = change_run_facts [OF assms(1,2) nz False]
  from False show ?thesis
    by (auto simp add: facts(4) is_change_notification_def format_header)
qed

theorem change_notification_iff_witness:
  "list_ex (starts_with txt_increase_header)
     (sent_by sample_config (sample_env reply_ok (counter_page (asc ''12 ads'')))
        (sample_system (sample_data 10 3)))
   \<and> list_ex (starts_with txt_decrease_header)
     (sent_by sample_config (sample_env reply_ok (counter_page (asc ''7 ads'')))
        (sample_system (sample_data 10 3)))
   \<and> \<not> list_ex is_change_notification
     (sent_by sample_config (sample_env reply_ok (counter_page (asc ''10 ads'')))
        (sample_system (sample_data 10 3)))"
  using change_notification_iff [where ev = "sample_env reply_ok (counter_page (asc ''12 ads''))"
      and cfg = sample_config and c = 12 and s = "sample_system (sample_data 10 3)"]
    change_notification_iff [where ev = "sample_env reply_ok (counter_page (asc ''7 ads''))"
      and cfg = sample_config and c = 7 and s = "sample_system (sample_data 10 3)"]
    change_notification_iff [where ev = "sample_env reply_ok (counter_page (asc ''10 ads''))"
      and cfg = sample_config and c = 10 and s = "sample_system (sample_data 10 3)"]
  by (simp add: sample_totals)

text \<open>
  Claim C6. When the observed total equals a stored \<open>last_total\<close> above 0, the run
  sends a periodic status notification exactly when the length of the history is a
  positive multiple of 50, sends nothing else, and changes neither the monitoring data
  nor the storage file.
\<close>

theorem periodic_status:
  assumes "driver_error ev = None" and "fst (get_total_results cfg (page ev)) = Some c"
    and "c - last_total (data s) = 0" and "0 < last_total (data s)"
  shows "list_ex is_status_notification (sent_by cfg ev s) =
           (length (history (data s)) mod 50 = 0 \<and> 0 < length (history (data s)))
    \<and> length (sent_by cfg ev s) \<le> 1
    \<and> data (run cfg ev s) = data s \<and> storage (run cfg ev s) = storage s
    \<and> writes (run cfg ev s) = writes s"
proof -
  from assms have c: "c = last_total (data s)" and nz: "last_total (data s) \<noteq> 0" by simp_all
  note facts = same_total_run [OF assms(1) assms(2) [unfolded c] nz]
  show ?thesis by (simp add: facts status_header)
qed

theorem periodic_status_witness:
  "list_ex is_status_notification
     (sent_by sample_config (sample_env reply_ok (counter_page (asc ''10 ads'')))
        (sample_system (sample_data 10 50)))
   \<and> \<not> list_ex is_status_notification
     (sent_by sample_config (sample_env reply_ok (counter_page (asc ''10 ads'')))
        (sample_system (sample_data 10 3)))
   \<and> data (run sample_config (sample_env reply_ok (counter_page (asc ''10 ads'')))
        (sample_system (sample_data 10 50))) = sample_data 10 50"
  using periodic_status [where ev = "sample_env reply_ok (counter_page (asc ''10 ads''))"
      and cfg = sample_config and c = 10 and s = "sample_system (sample_data 10 50)"]
    periodic_status [where ev = "sample_env reply_ok (counter_page (asc ''10 ads''))"
      and cfg = sample_config and c = 10 and s = "sample_system (sample_data 10 3)"]
  by (simp add: sample_totals)

text \<open>
  Claim C5, as amended. When the observed total equals a stored \<open>last_total\<close> other
  than 0, the run does not save: the monitoring data and the storage file are exactly
  what they were, \<open>last_check\<close> included, and a save after the run changes
  \<open>last_check\<close> only. (As stated, for every run whose observed total equals the
  stored one, the claim fails when both are 0: the run then takes the first-run path
  and saves a history that is one entry longer.)
\<close>

theorem unchanged_total_leaves_state:
  assumes "driver_error ev = None"
    and "fst (get_total_results cfg (page ev)) = Some (last_total (data s))"
    and "last_total (data s) \<noteq> 0"
  shows "data (run cfg ev s) = data s \<and> storage (run cfg ev s) = storage s
    \<and> writes (run cfg ev s) = writes s
    \<and> same_but_last_check (data s) (data (save_data ev' (run cfg ev s)))"
  by (simp add: same_total_run [OF assms] same_but_last_check_def)

theorem unchanged_total_leaves_state_witness:
  "storage (run sample_config (sample_env reply_ok (counter_page (asc ''10 ads'')))
        (sample_system (sample_data 10 3))) = Json (sample_data 10 3)
   \<and> writes (run sample_config (sample_env reply_ok (counter_page (asc ''10 ads'')))
        (sample_system (sample_data 10 3))) = 0
   \<and> same_but_last_check (sample_data 10 3)
       (data (save_data (sample_env reply_ok dead_page)
          (run sample_config (sample_env reply_ok (counter_page (asc ''10 ads'')))
             (sample_system (sample_data 10 3)))))"
  using unchanged_total_leaves_state [where ev = "sample_env reply_ok (counter_page (asc ''10 ads''))"
      and cfg = sample_config and s = "sample_system (sample_data 10 3)"
      and ev' = "sample_env reply_ok dead_page"]
  by (simp add: sample_totals del: save_fields)

theorem same_total_zero_counterexample:
  "driver_error (sample_env reply_ok (counter_page (asc ''0 ads''))) = None
   \<and> fst (get_total_results sample_config (page (sample_env reply_ok (counter_page (asc ''0 ads''))))) =
       Some (last_total (data (sample_system (sample_data 0 0))))
   \<and> storage (sample_system (sample_data 0 0)) = Json (data (sample_system (sample_data 0 0)))
   \<and> \<not> persisted_same_but_last_check (data (sample_system (sample_data 0 0)))
         (storage (run sample_config (sample_env reply_ok (counter_page (asc ''0 ads'')))
            (sample_system (sample_data 0 0))))"
  using first_run_facts(2,4) [where ev = "sample_env reply_ok (counter_page (asc ''0 ads''))"
      and cfg = sample_config and c = 0 and s = "sample_system (sample_data 0 0)"]
  by (simp add: sample_totals persisted_same_but_last_check_def same_but_last_check_def
      sample_data_def)

text \<open>
  Claim C7. On a run that detects a change, whatever the chat API answers (an error
  status and a failed request included), \<open>last_total\<close> becomes the observed total,
  the history entry carrying \<open>change = diff\<close> is appended (and the history cut to its
  100 most recent entries), and the save takes place; sending a message always yields
  a boolean, false for a failed request and for a 4xx or 5xx status.
\<close>

theorem notifier_failure_keeps_persistence:
  assumes "driver_error ev = None" and "fst (get_total_results cfg (page ev)) = Some c"
    and "last_total (data s) \<noteq> 0" and "c - last_total (data s) \<noteq> 0"
  shows "data (run cfg ev s) = (data s)\<lparr>last_total := c,
          history := most_recent 100 (history (data s) @
            [\<lparr>timestamp = isoformat (clock ev (Suc (Suc (ticks s)))), total = c,
              change = Some (c - last_total (data s))\<rparr>]),
          last_check := Some (isoformat (clock ev (Suc (Suc (Suc (ticks s))))))\<rparr>
    \<and> writes (run cfg ev s) = Suc (writes s)
    \<and> storage (run cfg ev s) =
        (case disk ev (writes s) of Written \<Rightarrow> Json (data (run cfg ev s))
         | OpenFails e \<Rightarrow> storage s | DumpFails e e' \<Rightarrow> Unreadable e')
    \<and> fst (send_telegram_message cfg ev m s') =
        (case http ev (length (posted s')) of
           Failed e \<Rightarrow> False
         | Responded code e \<Rightarrow> \<not> (400 \<le> code \<and> code < 600))"
proof -
  from assms(4) have ne: "c \<noteq> last_total (data s)" by simp
  note facts = change_run_facts [OF assms(1,2,3) ne]
  from facts(1,2,3) show ?thesis by (simp add: send_result)
qed

theorem notifier_failure_keeps_persistence_witness:
  "last_total (data (run sample_config (sample_env reply_server_error (counter_page (asc ''12 ads'')))
      (sample_system (sample_data 10 3)))) = 12
   \<and> map change (history (data (run sample_config
        (sample_env reply_server_error (counter_page (asc ''12 ads'')))
        (sample_system (sample_data 10 3))))) = [None, None, None, Some 2]
   \<and> storage (run sample_config (sample_env reply_server_error (counter_page (asc ''12 ads'')))
      (sample_system (sample_data 10 3))) =
     Json (data (run sample_config (sample_env reply_server_error (counter_page (asc ''12 ads'')))
      (sample_system (sample_data 10 3))))
   \<and> \<not> fst (send_telegram_message sample_config
        (sample_env reply_server_error (counter_page (asc ''12 ads''))) [] (sample_system (sample_data 10 3)))
   \<and> \<not> fst (send_telegram_message sample_config
        (sample_env (Failed (asc ''timed out'')) (counter_page (asc ''12 ads''))) []
        (sample_system (sample_data 10 3)))"
  using notifier_failure_keeps_persistence
      [where ev = "sample_env reply_server_error (counter_page (asc ''12 ads''))"
        and cfg = sample_config and c = 12 and s = "sample_system (sample_data 10 3)"
        and m = "[]" and s' = "sample_system (sample_data 10 3)"]
    notifier_failure_keeps_persistence
      [where ev = "sample_env (Failed (asc ''timed out'')) (counter_page (asc ''12 ads''))"
        and cfg = sample_config and c = 12 and s = "sample_system (sample_data 10 3)"
        and m = "[]" and s' = "sample_system (sample_data 10 3)"]
  by (simp add: sample_totals reply_server_error_def most_recent_def sample_data_def
      numeral_3_eq_3)

section \<open>Counter extraction\<close>

text \<open>
  Claim C3, as amended. When the text matched for the counter holds a decimal digit and
  its first maximal run of digits is at most 4300 digits long, the extractor returns
  the integer formed by that run. (As stated, for every matched text that holds a
  digit, the claim fails on a longer run: \<open>int\<close> raises \<open>ValueError\<close>, the
  handler of line 172 catches it, and the extractor returns no value.)
\<close>

theorem counter_is_first_digit_run:
  assumes "get_error pg = None" and "fst (find_total_text pg) = Inr (Some t)"
    and "\<exists>c\<in>set t. is_nd c" and "length (first_digit_run t) \<le> 4300"
  shows "fst (get_total_results cfg pg) = Some (int (number_of_run (first_digit_run t)))"
proof -
  from assms(4) have "length (first_digit_run t) \<le> int_max_str_digits"
    by (simp add: int_max_str_digits_def)
  from parse_total_text_digits [OF assms(3) this] assms(1,2) show ?thesis
    by (cases "find_total_text pg") (simp add: get_total_results_def)
qed

theorem counter_is_first_digit_run_witness:
  "first_digit_run text_found_1234 = asc ''1234''
   \<and> fst (get_total_results sample_config (counter_page text_found_1234)) = Some 1234
   \<and> first_digit_run text_zero_ads = asc ''0''
   \<and> fst (get_total_results sample_config (counter_page text_zero_ads)) = Some 0"
proof -
  have r1: "first_digit_run text_found_1234 = asc ''1234''"
    and r2: "first_digit_run text_zero_ads = asc ''0''"
    by (simp_all add: first_digit_run_def text_found_1234_def text_zero_ads_def asc_def)
  have d1: "\<exists>c\<in>set text_found_1234. is_nd c" and d2: "\<exists>c\<in>set text_zero_ads. is_nd c"
    by (simp_all add: text_found_1234_def text_zero_ads_def asc_def)
  have n1: "text_found_1234 \<noteq> []" and n2: "text_zero_ads \<noteq> []"
    by (simp_all add: text_found_1234_def text_zero_ads_def)
  have l1: "length (first_digit_run text_found_1234) \<le> 4300"
    and l2: "length (first_digit_run text_zero_ads) \<le> 4300"
    by (simp_all add: r1 r2 asc_def)
  have "fst (get_total_results sample_config (counter_page text_found_1234)) =
          Some (int (number_of_run (first_digit_run text_found_1234)))"
    by (rule counter_is_first_digit_run
        [OF counter_page_text(2) counter_page_text(1) [OF n1] d1 l1])
  moreover have "fst (get_total_results sample_config (counter_page text_zero_ads)) =
          Some (int (number_of_run (first_digit_run text_zero_ads)))"
    by (rule counter_is_first_digit_run
        [OF counter_page_text(2) counter_page_text(1) [OF n2] d2 l2])
  ultimately show ?thesis by (simp add: r1 r2 asc_def)
qed

theorem long_digit_run_counterexample:
  "get_error (counter_page text_long_run) = None
   \<and> fst (find_total_text (counter_page text_long_run)) = Inr (Some text_long_run)
   \<and> 48 \<in> set text_long_run \<and> is_nd 48
   \<and> first_digit_run text_long_run = text_long_run
   \<and> fst (get_total_results sample_config (counter_page text_long_run)) = None"
proof -
  have n: "text_long_run \<noteq> []" and m: "48 \<in> set text_long_run"
    by (simp_all add: text_long_run_def)
  have r: "first_digit_run text_long_run = text_long_run"
    by (simp add: first_digit_run_def text_long_run_def)
  have d: "\<exists>c\<in>set text_long_run. is_nd c" using m by (intro bexI [of _ 48]) simp_all
  have l: "int_max_str_digits < length (first_digit_run text_long_run)"
    by (simp add: r) (simp add: text_long_run_def int_max_str_digits_def)
  from counter_page_long [OF d l] counter_page_text(1) [OF n] m r show ?thesis
    by (simp add: counter_page_text(2))
qed

section \<open>Repeated runs\<close>

lemma init_fields [simp]:
  "writes (init s) = writes s" "storage (init s) = storage s" "ticks (init s) = ticks s"
  "posted (init s) = posted s" "driver (init s) = False"
  by (simp_all add: init_def load_data_def Let_def split: stored.splits)










section \<open>State store\<close>

text \<open>
  Claim C9. Loading a storage file that is missing, or present but not loadable,
  returns the default state (\<open>last_total\<close> 0, no \<open>last_check\<close>, empty history, no
  seen identifiers) as an ordinary result; for the file that cannot be loaded the
  error is printed and nothing else changes.
\<close>

theorem load_data_default:
  "fst (load_data (s\<lparr>storage := Absent\<rparr>)) = default_data
   \<and> snd (load_data (s\<lparr>storage := Absent\<rparr>)) = s\<lparr>storage := Absent\<rparr>
   \<and> fst (load_data (s\<lparr>storage := Unreadable e\<rparr>)) = default_data
   \<and> snd (load_data (s\<lparr>storage := Unreadable e\<rparr>)) =
       print_line (asc ''Error loading data: '' @ e) (s\<lparr>storage := Unreadable e\<rparr>)
   \<and> default_data = \<lparr>last_total = 0, last_check = None, history = [], seen_car_ids = []\<rparr>"
  by (simp add: load_data_def default_data_def)

end
